theory Spec2Isabelle
  imports Main "HOL-Library.Sublist"
begin

section \<open>Strings, paths and errors\<close>

text \<open>
  Go strings are byte sequences; they are modelled as \<open>string\<close> (a list of characters).
  A Go \<open>error\<close> value is modelled by its message; \<open>nil\<close> is \<open>None\<close>.
\<close>

type_synonym path = string

datatype error = Error string

text \<open>\<open>fmt.Errorf("<prefix>%s", err)\<close>: a new error whose message is the prefix followed by
  the message of the error it wraps.\<close>

fun Errorf :: "string \<Rightarrow> error \<Rightarrow> error" where
  "Errorf pre (Error msg) = Error (pre @ msg)"

text \<open>\<open>strings.HasSuffix\<close> and \<open>strings.Index\<close> (the byte index of the leftmost occurrence
  of \<open>substr\<close> in \<open>s\<close>, or \<open>-1\<close> when there is none).\<close>

definition HasSuffix :: "string \<Rightarrow> string \<Rightarrow> bool" where
  "HasSuffix s suf = suffix suf s"

fun Index :: "string \<Rightarrow> string \<Rightarrow> int" where
  "Index [] substr = (if substr = [] then 0 else - 1)"
| "Index (c # cs) substr =
     (if prefix substr (c # cs) then 0
      else (let i = Index cs substr in if i < 0 then - 1 else i + 1))"

section \<open>The copy filter\<close>

text \<open>
  The closure passed as \<open>cp.Options.Skip\<close>, written identically in \<open>AdjustGitopsRepo\<close> and in
  \<open>AdjustMetaphorRepo\<close>: it returns a pair of a Boolean and an error.
\<close>

definition Skip :: "string \<Rightarrow> bool \<times> error option" where
  "Skip src =
     (if HasSuffix src ''.git'' then (True, None)
      else if Index src ''/.terraform'' > 0 then (True, None)
      else (False, None))"

section \<open>Package constants\<close>

text \<open>The constants of package \<open>k3d\<close> (config.go) that the functions below read.\<close>

definition CloudProvider :: string where
  "CloudProvider = ''k3d''"

definition GithubHost :: string where
  "GithubHost = ''github.com''"

definition GitlabHost :: string where
  "GitlabHost = ''gitlab.com''"

definition DomainName :: string where
  "DomainName = ''kubefirst.dev''"

definition dquote :: char where
  "dquote = CHR 0x22"

section \<open>The collaborators as an interface\<close>

text \<open>
  Both functions are straight sequences of calls to collaborators: the operating system
  (\<open>os.RemoveAll\<close>, \<open>os.Remove\<close>, \<open>os.Mkdir\<close>), the recursive copy utility (\<open>cp.Copy\<close>), the
  process-execution helper (\<open>pkg.ExecShellReturnStrings\<close>) and the version-control client.
  A call is a value; a system interprets a call on a world and returns the error (or \<open>nil\<close>)
  together with the new world. The repository handle returned by \<open>git.PlainInit\<close> is
  represented by the directory of the repository.
\<close>

datatype Options = Options "(string \<Rightarrow> bool \<times> error option) option"

datatype call =
    os_RemoveAll path
  | os_Remove path
  | os_Mkdir path
  | cp_Copy path path Options
  | ExecShellReturnStrings string "string list"
  | git_PlainInit path
  | gitClient_Commit path string
  | gitClient_SetRefToMainBranch path
  | RemoveReference path string
  | CreateRemote path string "string list"

type_synonym 'w system = "call \<Rightarrow> 'w \<Rightarrow> error option \<times> 'w"

text \<open>\<open>if err != nil { return err }\<close>: the rest of the function runs only after success.\<close>

definition andThen :: "error option \<times> 'w \<Rightarrow> ('w \<Rightarrow> error option \<times> 'w) \<Rightarrow> error option \<times> 'w" where
  "andThen r k = (case r of (Some e, w) \<Rightarrow> (Some e, w) | (None, w) \<Rightarrow> k w)"

text \<open>\<open>if err != nil { return fmt.Errorf("<prefix>%s", err) }\<close>.\<close>

definition wrapErr :: "string \<Rightarrow> error option \<times> 'w \<Rightarrow> error option \<times> 'w" where
  "wrapErr pre r = (case r of (Some e, w) \<Rightarrow> (Some (Errorf pre e), w) | (None, w) \<Rightarrow> (None, w))"

text \<open>A system that also records every call it serves, with the call's result.\<close>

type_synonym trace = "(call \<times> error option) list"

definition traced :: "'w system \<Rightarrow> ('w \<times> trace) system" where
  "traced sys c s = (case s of (w, tr) \<Rightarrow> (case sys c w of (e, w') \<Rightarrow> (e, (w', tr @ [(c, e)]))))"

section \<open>AdjustGitopsRepo\<close>

text \<open>
  Lines 26 to 30: the loop over \<open>pkg.SupportedPlatforms\<close>. The list is declared in package
  \<open>pkg\<close>, outside the files at hand, and is a parameter here. The result of \<open>os.RemoveAll\<close>
  is dropped. The name kept is built from the package constant \<open>CloudProvider\<close>.
\<close>

fun clean_up_platforms :: "'w system \<Rightarrow> string list \<Rightarrow> string \<Rightarrow> string \<Rightarrow> 'w \<Rightarrow> 'w" where
  "clean_up_platforms sys [] gitopsRepoDir gitProvider w = w"
| "clean_up_platforms sys (platform # platforms) gitopsRepoDir gitProvider w =
     (if platform \<noteq> CloudProvider @ ''-'' @ gitProvider
      then clean_up_platforms sys platforms gitopsRepoDir gitProvider
             (snd (sys (os_RemoveAll (gitopsRepoDir @ ''/'' @ platform)) w))
      else clean_up_platforms sys platforms gitopsRepoDir gitProvider w)"

text \<open>Lines 26 to 61: the loop, the copy of the driver content over the root, the removal of
  the driver subtree, and the copy of the cluster type into the registry.\<close>

definition AdjustGitopsRepo_populate ::
  "'w system \<Rightarrow> string list \<Rightarrow> string \<Rightarrow> string \<Rightarrow> string \<Rightarrow> string \<Rightarrow> 'w \<Rightarrow> error option \<times> 'w" where
  "AdjustGitopsRepo_populate sys SupportedPlatforms clusterName clusterType gitopsRepoDir gitProvider w =
     (let w1 = clean_up_platforms sys SupportedPlatforms gitopsRepoDir gitProvider w;
          opt = Options (Some Skip);
          driverContent = gitopsRepoDir @ ''/'' @ CloudProvider @ ''-'' @ gitProvider @ ''/''
      in andThen (sys (cp_Copy driverContent gitopsRepoDir opt) w1) (\<lambda>w2.
           (let w3 = snd (sys (os_RemoveAll driverContent) w2);
                clusterContent = gitopsRepoDir @ ''/cluster-types/'' @ clusterType
            in sys (cp_Copy clusterContent (gitopsRepoDir @ ''/registry/'' @ clusterName) opt) w3)))"

text \<open>Lines 62 to 98: the removal of \<open>cluster-types\<close> and \<open>services\<close>, of one console manifest
  and of the Atlantis manifest, then the repository-definition file. \<open>pkg.LocalhostARCH\<close> is
  declared in package \<open>pkg\<close> and is a parameter here.\<close>

definition AdjustGitopsRepo_finish ::
  "'w system \<Rightarrow> string \<Rightarrow> string \<Rightarrow> string \<Rightarrow> string \<Rightarrow> string \<Rightarrow> bool \<Rightarrow> 'w \<Rightarrow> error option \<times> 'w" where
  "AdjustGitopsRepo_finish sys LocalhostARCH cloudProvider clusterName gitopsRepoDir gitopsRepoName
       removeAtlantis w =
     (let w1 = snd (sys (os_RemoveAll (gitopsRepoDir @ ''/cluster-types'')) w);
          w2 = snd (sys (os_RemoveAll (gitopsRepoDir @ ''/services'')) w1);
          registryLocation = gitopsRepoDir @ ''/registry/'' @ clusterName;
          w3 = (if LocalhostARCH = ''arm64'' \<and> cloudProvider = CloudProvider
                then snd (sys (os_Remove (registryLocation @ ''/components/kubefirst/console.yaml'')) w2)
                else snd (sys (os_Remove (registryLocation @ ''/components/kubefirst/console-arm.yaml'')) w2));
          w4 = (if removeAtlantis
                then snd (sys (os_Remove (registryLocation @ ''/atlantis.yaml'')) w3)
                else w3);
          path = gitopsRepoDir @ ''/'' @ ''terraform/github/repos.tf'';
          tmplpath = gitopsRepoDir @ ''/'' @ ''terraform/github/repos.tf.tmpl''
      in andThen (sys (cp_Copy tmplpath path (Options None)) w4) (\<lambda>w5.
           (let pattern = ''s/GITOPS_REPO_NAME/'' @ [dquote] @ gitopsRepoName @ [dquote] @ ''/''
            in sys (ExecShellReturnStrings ''sed'' [''-i'', pattern, path]) w5)))"

definition AdjustGitopsRepo ::
  "'w system \<Rightarrow> string list \<Rightarrow> string \<Rightarrow> string \<Rightarrow> string \<Rightarrow> string \<Rightarrow> string \<Rightarrow> string \<Rightarrow> string
     \<Rightarrow> string \<Rightarrow> bool \<Rightarrow> 'w \<Rightarrow> error option \<times> 'w" where
  "AdjustGitopsRepo sys SupportedPlatforms LocalhostARCH cloudProvider clusterName clusterType
       gitopsRepoDir gitopsRepoName gitProvider k1Dir removeAtlantis w =
     andThen (AdjustGitopsRepo_populate sys SupportedPlatforms clusterName clusterType gitopsRepoDir
                gitProvider w)
       (AdjustGitopsRepo_finish sys LocalhostARCH cloudProvider clusterName gitopsRepoDir
          gitopsRepoName removeAtlantis)"

section \<open>AdjustMetaphorRepo\<close>

text \<open>Lines 136 to 155: the \<open>switch gitProvider\<close> that copies the CI content.\<close>

definition copy_ci_content :: "'w system \<Rightarrow> string \<Rightarrow> string \<Rightarrow> string \<Rightarrow> Options \<Rightarrow> 'w \<Rightarrow> error option \<times> 'w" where
  "copy_ci_content sys gitProvider k1Dir metaphorDir opt w =
     (if gitProvider = ''github''
      then sys (cp_Copy (k1Dir @ ''/gitops/ci/.github'') (metaphorDir @ ''/.github'') opt) w
      else if gitProvider = ''gitlab''
      then sys (cp_Copy (k1Dir @ ''/gitops/ci/.gitlab-ci.yml'') (metaphorDir @ ''/.gitlab-ci.yml'') opt) w
      else (None, w))"

text \<open>Lines 180 to 215: commit, branch, substitution and remote.\<close>

definition AdjustMetaphorRepo_publish ::
  "'w system \<Rightarrow> string \<Rightarrow> string \<Rightarrow> string \<Rightarrow> path \<Rightarrow> 'w \<Rightarrow> error option \<times> 'w" where
  "AdjustMetaphorRepo_publish sys destinationMetaphorRepoGitURL gitopsRepoDir metaphorRepoName
       metaphorRepo w =
     andThen (sys (gitClient_Commit metaphorRepo ''committing initial detokenized metaphor repo content'') w) (\<lambda>w1.
     andThen (sys (gitClient_SetRefToMainBranch metaphorRepo) w1) (\<lambda>w2.
     andThen (wrapErr ''error removing previous git ref: ''
                (sys (RemoveReference metaphorRepo ''refs/heads/master'') w2)) (\<lambda>w3.
     (let path = gitopsRepoDir @ ''/terraform/github/repos.tf'';
          pattern = ''s/METAPHOR_REPO_NAME/'' @ [dquote] @ metaphorRepoName @ [dquote] @ ''/''
      in andThen (wrapErr ''error replacing gitops repo name in repos.tf: ''
                    (sys (ExecShellReturnStrings ''sed'' [''-i'', pattern, path]) w3)) (\<lambda>w4.
           wrapErr (''error problem creating Metaphore repo: URL='' @ destinationMetaphorRepoGitURL @ '': '')
             (sys (CreateRemote metaphorRepo ''origin'' [destinationMetaphorRepoGitURL]) w4))))))"

definition AdjustMetaphorRepo ::
  "'w system \<Rightarrow> string \<Rightarrow> string \<Rightarrow> string \<Rightarrow> string \<Rightarrow> string \<Rightarrow> 'w \<Rightarrow> error option \<times> 'w" where
  "AdjustMetaphorRepo sys destinationMetaphorRepoGitURL gitopsRepoDir metaphorRepoName gitProvider
       k1Dir w =
     (let metaphorDir = k1Dir @ ''/metaphor'';
          w1 = snd (sys (os_Mkdir metaphorDir) w);
          opt = Options (Some Skip);
          metaphorContent = gitopsRepoDir @ ''/metaphor''
      in andThen (sys (git_PlainInit metaphorDir) w1) (\<lambda>w2.
         andThen (sys (cp_Copy metaphorContent metaphorDir opt) w2) (\<lambda>w3.
         andThen (copy_ci_content sys gitProvider k1Dir metaphorDir opt w3) (\<lambda>w4.
         (let argoWorkflowsFolderContent = k1Dir @ ''/gitops/ci/.argo''
          in andThen (sys (cp_Copy argoWorkflowsFolderContent (metaphorDir @ ''/.argo'') opt) w4) (\<lambda>w5.
             (let dockerfileContent = metaphorDir @ ''/Dockerfile'';
                  w6 = snd (sys (os_Mkdir (metaphorDir @ ''/build'')) w5)
              in andThen (sys (cp_Copy dockerfileContent (metaphorDir @ ''/build/Dockerfile'') opt) w6) (\<lambda>w7.
                 (let w8 = snd (sys (os_RemoveAll (gitopsRepoDir @ ''/ci'')) w7);
                      w9 = snd (sys (os_RemoveAll (gitopsRepoDir @ ''/metaphor'')) w8)
                  in AdjustMetaphorRepo_publish sys destinationMetaphorRepoGitURL gitopsRepoDir
                       metaphorRepoName metaphorDir w9)))))))))"

section \<open>GetConfig\<close>

record K3dConfig =
  GithubToken :: string
  GitlabToken :: string
  DestinationGitopsRepoGitURL :: string
  DestinationGitopsRepoURL :: string
  DestinationMetaphorRepoURL :: string
  DestinationMetaphorRepoGitURL :: string
  DestinationGitopsRepoHttpsURL :: string
  DestinationMetaphorRepoHttpsURL :: string
  GitopsDir :: string
  GitProvider :: string
  GitProtocol :: string
  K1Dir :: string
  K3dClient :: string
  Kubeconfig :: string
  KubectlClient :: string
  KubefirstConfig :: string
  MetaphorDir :: string
  MkCertClient :: string
  MkCertPemDir :: string
  MkCertSSLSecretDir :: string
  TerraformClient :: string
  ToolsDir :: string
  GitopsRepoName :: string
  MetaphorRepoName :: string

text \<open>The \<open>switch gitProvider\<close> of lines 87 to 93; \<open>cGitHost\<close> keeps the zero value of a Go
  string when no case matches.\<close>

definition cGitHost :: "string \<Rightarrow> string" where
  "cGitHost gitProvider =
     (if gitProvider = ''github'' then GithubHost
      else if gitProvider = ''gitlab'' then GitlabHost
      else [])"

text \<open>
  \<open>GetConfig\<close> reads two things from its environment, which are parameters here: the struct
  as \<open>env.Parse\<close> leaves it (an error of \<open>env.Parse\<close> is only logged), and the result of
  \<open>os.UserHomeDir\<close>. When the latter is an error, \<open>log.Fatal\<close> ends the process: the function
  does not return, which is the value \<open>None\<close>.
\<close>

definition GetConfig ::
  "K3dConfig \<Rightarrow> error + string \<Rightarrow> string \<Rightarrow> string \<Rightarrow> string \<Rightarrow> string \<Rightarrow> string \<Rightarrow> string \<Rightarrow> string
     \<Rightarrow> K3dConfig option" where
  "GetConfig parsed userHomeDir configName clusterName gitopsRepoName metaphorRepoName gitProvider
       gitOwner gitProtocol =
     (case userHomeDir of
        Inl err \<Rightarrow> None
      | Inr homeDir \<Rightarrow>
          (let host = cGitHost gitProvider;
               k1 = homeDir @ ''/.k1/configs/'' @ configName
           in Some (parsed
                \<lparr> DestinationGitopsRepoGitURL := ''git@'' @ host @ '':'' @ gitOwner @ ''/'' @ gitopsRepoName @ ''.git'',
                  DestinationGitopsRepoURL := ''https://'' @ host @ ''/'' @ gitOwner @ ''/'' @ gitopsRepoName @ ''.git'',
                  DestinationMetaphorRepoURL := ''https://'' @ host @ ''/'' @ gitOwner @ ''/'' @ metaphorRepoName @ ''.git'',
                  DestinationMetaphorRepoGitURL := ''git@'' @ host @ '':'' @ gitOwner @ ''/'' @ metaphorRepoName @ ''.git'',
                  GitopsDir := k1 @ ''/gitops'',
                  GitProvider := gitProvider,
                  GitProtocol := gitProtocol,
                  K1Dir := k1,
                  K3dClient := k1 @ ''/tools/k3d'',
                  Kubeconfig := k1 @ ''/kubeconfig'',
                  KubectlClient := k1 @ ''/tools/kubectl'',
                  KubefirstConfig := k1 @ ''/'' @ ''.kubefirst'',
                  MetaphorDir := k1 @ ''/metaphor'',
                  MkCertClient := k1 @ ''/tools/mkcert'',
                  MkCertPemDir := k1 @ ''/ssl/'' @ DomainName @ ''/pem'',
                  MkCertSSLSecretDir := k1 @ ''/ssl/'' @ DomainName @ ''/secrets'',
                  TerraformClient := k1 @ ''/tools/terraform'',
                  ToolsDir := k1 @ ''/tools'',
                  GitopsRepoName := gitopsRepoName,
                  MetaphorRepoName := metaphorRepoName \<rparr>)))"

text \<open>The zero value of the struct: every field is the empty string.\<close>

definition zero_config :: K3dConfig where
  "zero_config =
     \<lparr> GithubToken = [], GitlabToken = [], DestinationGitopsRepoGitURL = [],
       DestinationGitopsRepoURL = [], DestinationMetaphorRepoURL = [],
       DestinationMetaphorRepoGitURL = [], DestinationGitopsRepoHttpsURL = [],
       DestinationMetaphorRepoHttpsURL = [], GitopsDir = [], GitProvider = [], GitProtocol = [],
       K1Dir = [], K3dClient = [], Kubeconfig = [], KubectlClient = [], KubefirstConfig = [],
       MetaphorDir = [], MkCertClient = [], MkCertPemDir = [], MkCertSSLSecretDir = [],
       TerraformClient = [], ToolsDir = [], GitopsRepoName = [], MetaphorRepoName = [] \<rparr>"

section \<open>A reference world: files, repositories and the stream editor\<close>

text \<open>
  The state claims are settled on one concrete system. Its world holds
  \<^item> the file tree, as a list of entries (path, node); a directory also exists when only
    entries below it are listed;
  \<^item> the paths that the operating system refuses to remove (permission denied);
  \<^item> the repositories of the version-control client, by directory;
  \<^item> whether the \<open>sed\<close> binary can be run, and what \<open>sed\<close> does with a script outside the
    fragment interpreted below (left open: any behaviour).
  An operation fails for a reason that the world shows: a missing source, a missing file, a
  directory that is not empty, a removal that is refused, a repository or remote that exists
  already.

  Paths are compared as they are written, after the removal of trailing slashes: no \<open>.\<close>,
  \<open>..\<close> or doubled slash is resolved. This is exact for paths in normal form only, so every
  theorem about this world assumes that the arguments from which the functions build their
  paths are in normal form (\<open>normal_arguments\<close> below).
\<close>

datatype node = File string | Dir

record repository =
  commits :: "string list"
  HEAD :: string
  refs :: "(string \<times> nat) list"
  remotes :: "(string \<times> string list) list"

record world =
  files :: "(path \<times> node) list"
  refused :: "path \<Rightarrow> bool"
  repositories :: "(path \<times> repository) list"
  sed_binary :: bool
  sed_other :: "string \<Rightarrow> string \<Rightarrow> error + string"

definition slash :: char where
  "slash = CHR ''/''"

definition newline :: char where
  "newline = CHR 0x0A"

definition trim :: "path \<Rightarrow> path" where
  "trim p = rev (dropWhile (\<lambda>c. c = slash) (rev p))"

text \<open>\<open>under d p\<close>: the path \<open>p\<close> is \<open>d\<close> itself or lies below the directory \<open>d\<close>.\<close>

definition under :: "path \<Rightarrow> path \<Rightarrow> bool" where
  "under d p = (p = d \<or> prefix (d @ [slash]) p)"

definition path_exists :: "(path \<times> node) list \<Rightarrow> path \<Rightarrow> bool" where
  "path_exists F p = list_ex (\<lambda>e. under p (fst e)) F"

definition is_file :: "(path \<times> node) list \<Rightarrow> path \<Rightarrow> bool" where
  "is_file F p = (case map_of F p of Some (File c) \<Rightarrow> True | _ \<Rightarrow> False)"

text \<open>The entries at and below \<open>d\<close> go, except those whose removal is refused.\<close>

definition delete_tree :: "(path \<Rightarrow> bool) \<Rightarrow> path \<Rightarrow> (path \<times> node) list \<Rightarrow> (path \<times> node) list" where
  "delete_tree keep d F = filter (\<lambda>e. \<not> under d (fst e) \<or> keep (fst e)) F"

definition delete_entry :: "path \<Rightarrow> (path \<times> node) list \<Rightarrow> (path \<times> node) list" where
  "delete_entry p F = filter (\<lambda>e. fst e \<noteq> p) F"

definition write_entries :: "(path \<times> node) list \<Rightarrow> (path \<times> node) list \<Rightarrow> (path \<times> node) list" where
  "write_entries new F = new @ filter (\<lambda>e. fst e \<notin> fst ` set new) F"

subsection \<open>Paths in normal form\<close>

text \<open>The segments of a path are the pieces between its slashes. A plain name is a
  segment that is not empty and is neither \<open>.\<close> nor \<open>..\<close>. A path in normal form is a sequence
  of plain names separated by single slashes, with or without a leading slash.\<close>

fun segments :: "string \<Rightarrow> string list" where
  "segments [] = [[]]"
| "segments (c # cs) =
     (if c = slash then [] # segments cs
      else (case segments cs of s # ss \<Rightarrow> (c # s) # ss | [] \<Rightarrow> [[c]]))"

definition plain_name :: "string \<Rightarrow> bool" where
  "plain_name n = (n \<noteq> [] \<and> slash \<notin> set n \<and> n \<noteq> ''.'' \<and> n \<noteq> ''..'')"

definition normal_path :: "path \<Rightarrow> bool" where
  "normal_path p =
     (case segments p of
        [] \<Rightarrow> False
      | s # ss \<Rightarrow> if s = [] then ss \<noteq> [] \<and> list_all plain_name ss else list_all plain_name (s # ss))"

text \<open>The arguments from which \<open>AdjustGitopsRepo\<close> builds its paths: the supported platforms,
  the cluster name, the cluster type and the git provider are plain names, and the template
  root is a path in normal form.\<close>

definition normal_arguments :: "string list \<Rightarrow> string \<Rightarrow> string \<Rightarrow> path \<Rightarrow> string \<Rightarrow> bool" where
  "normal_arguments SupportedPlatforms clusterName clusterType gitopsRepoDir gitProvider =
     (list_all plain_name SupportedPlatforms \<and> plain_name clusterName \<and> plain_name clusterType
      \<and> normal_path gitopsRepoDir \<and> plain_name gitProvider)"

subsection \<open>The operating system\<close>

text \<open>\<open>os.RemoveAll\<close>: the path and everything below it go; a path that does not exist is not
  an error. It removes what it can and returns the first error it met: an entry whose removal
  is refused stays, and is the error. A repository whose directory goes is gone too.\<close>

definition RemoveAll :: "path \<Rightarrow> world \<Rightarrow> error option \<times> world" where
  "RemoveAll p w =
     ((case filter (\<lambda>e. under (trim p) (fst e) \<and> refused w (fst e)) (files w) of
         [] \<Rightarrow> None
       | e # es \<Rightarrow> Some (Error (''unlinkat '' @ fst e @ '': permission denied''))),
      w\<lparr> files := delete_tree (refused w) (trim p) (files w),
         repositories := filter (\<lambda>r. \<not> under (trim p) (fst r @ ''/.git'')) (repositories w) \<rparr>)"

text \<open>\<open>os.Remove\<close>: a file or an empty directory goes; a missing path, a removal that is
  refused and a directory that is not empty are errors, and leave the tree as it is.\<close>

definition Remove :: "path \<Rightarrow> world \<Rightarrow> error option \<times> world" where
  "Remove p w =
     (if \<not> path_exists (files w) p
      then (Some (Error (''remove '' @ p @ '': no such file or directory'')), w)
      else if refused w p
      then (Some (Error (''remove '' @ p @ '': permission denied'')), w)
      else (case map_of (files w) p of
              Some (File c) \<Rightarrow> (None, w\<lparr> files := delete_entry p (files w) \<rparr>)
            | _ \<Rightarrow>
                (if list_ex (\<lambda>e. prefix (p @ [slash]) (fst e)) (files w)
                 then (Some (Error (''remove '' @ p @ '': directory not empty'')), w)
                 else (None, w\<lparr> files := delete_entry p (files w) \<rparr>))))"

text \<open>\<open>os.Mkdir\<close>: a new directory; a path that exists is an error.\<close>

definition Mkdir :: "path \<Rightarrow> world \<Rightarrow> error option \<times> world" where
  "Mkdir p w =
     (if path_exists (files w) (trim p)
      then (Some (Error (''mkdir '' @ p @ '': file exists'')), w)
      else (None, w\<lparr> files := write_entries [(trim p, Dir)] (files w) \<rparr>))"

subsection \<open>The recursive copy utility\<close>

text \<open>
  \<open>cp.Copy(src, dest, opt)\<close> of the library \<open>otiai10/copy\<close>: \<open>Lstat\<close> of the source (an error
  when it is missing); a file is written to \<open>dest\<close>; a directory is created at \<open>dest\<close> and its
  entries are copied one by one, each after the \<open>Skip\<close> callback has been asked about the
  entry's source path (the source directory joined with the names below it). A skipped
  directory is not entered. The source root itself is never put to the callback. Entries that
  exist at the destination and are not overwritten stay.
\<close>

text \<open>The prefixes of a relative path \<open>/a/b/c\<close> that end at a name: \<open>/a\<close>, \<open>/a/b\<close>, \<open>/a/b/c\<close>.\<close>

fun cuts :: "string \<Rightarrow> string list" where
  "cuts [] = []"
| "cuts (c # cs) =
     (if cs = [] \<or> hd cs = slash then [[c]] else []) @ map ((#) c) (cuts cs)"

definition skip_of :: "Options \<Rightarrow> string \<Rightarrow> bool \<times> error option" where
  "skip_of opt p = (case opt of Options None \<Rightarrow> (False, None) | Options (Some f) \<Rightarrow> f p)"

text \<open>The entry at \<open>s @ rel\<close> is reached when no directory strictly between \<open>s\<close> and the entry
  is skipped; it is copied when, further, it is not skipped itself.\<close>

definition reached :: "Options \<Rightarrow> path \<Rightarrow> string \<Rightarrow> bool" where
  "reached opt s rel = list_all (\<lambda>r. \<not> fst (skip_of opt (s @ r))) (butlast (cuts rel))"

definition copied :: "Options \<Rightarrow> path \<Rightarrow> string \<Rightarrow> bool" where
  "copied opt s rel = list_all (\<lambda>r. \<not> fst (skip_of opt (s @ r))) (cuts rel)"

definition skip_errors :: "Options \<Rightarrow> path \<Rightarrow> (path \<times> node) list \<Rightarrow> error list" where
  "skip_errors opt s F =
     List.map_filter (\<lambda>e. if prefix (s @ [slash]) (fst e) \<and> reached opt s (drop (length s) (fst e))
                           then snd (skip_of opt (fst e)) else None) F"

definition copy_entries :: "Options \<Rightarrow> path \<Rightarrow> path \<Rightarrow> (path \<times> node) list \<Rightarrow> (path \<times> node) list" where
  "copy_entries opt s d F =
     map (\<lambda>e. (d @ drop (length s) (fst e), snd e))
       (filter (\<lambda>e. prefix (s @ [slash]) (fst e) \<and> copied opt s (drop (length s) (fst e))) F)"

definition Copy :: "path \<Rightarrow> path \<Rightarrow> Options \<Rightarrow> world \<Rightarrow> error option \<times> world" where
  "Copy src dest opt w =
     (let s = trim src; d = trim dest; F = files w in
      if \<not> path_exists F s
      then (Some (Error (''lstat '' @ src @ '': no such file or directory'')), w)
      else (case map_of F s of
              Some (File c) \<Rightarrow>
                (if s \<noteq> src
                 then (Some (Error (''lstat '' @ src @ '': not a directory'')), w)
                 else (None, w\<lparr> files := write_entries [(d, File c)] F \<rparr>))
            | _ \<Rightarrow>
                (case skip_errors opt s F of
                   e # es \<Rightarrow> (Some e, w)
                 | [] \<Rightarrow> (None, w\<lparr> files := write_entries ((d, Dir) # copy_entries opt s d F) F \<rparr>))))"

subsection \<open>The stream editor\<close>

text \<open>
  Modelled from the spec: \<open>pkg.ExecShellReturnStrings\<close> is not among the files at hand. It runs
  a command and returns an error when the binary is missing or the command exits with a code
  other than zero. Only the invocation \<open>sed -i <script> <file>\<close> is interpreted, and the script
  only when it is \<open>s/PAT/REPL/\<close> with \<open>PAT\<close> a word of letters, digits and underscores and
  \<open>REPL\<close> free of the characters that \<open>sed\<close> reads specially (slash, backslash, ampersand,
  newline): then, on each line, the leftmost occurrence of \<open>PAT\<close> is replaced by \<open>REPL\<close> (the
  script has no \<open>g\<close> flag). What \<open>sed\<close> does with any other script is the field \<open>sed_other\<close>
  of the world.
\<close>

definition word_char :: "char \<Rightarrow> bool" where
  "word_char c = (c \<in> set ''ABCDEFGHIJKLMNOPQRSTUVWXYZabcdefghijklmnopqrstuvwxyz0123456789_'')"

definition special_char :: "char \<Rightarrow> bool" where
  "special_char c = (c = slash \<or> c = CHR 0x5C \<or> c = CHR ''&'' \<or> c = newline)"

definition parse_script :: "string \<Rightarrow> (string \<times> string) option" where
  "parse_script script =
     (if prefix ''s/'' script
      then (let r1 = drop 2 script;
                pat = takeWhile (\<lambda>c. c \<noteq> slash) r1;
                r2 = drop (Suc (length pat)) r1;
                repl = takeWhile (\<lambda>c. c \<noteq> slash) r2;
                r3 = drop (length repl) r2
            in if length pat < length r1 \<and> pat \<noteq> [] \<and> list_all word_char pat
                  \<and> \<not> list_ex special_char repl \<and> r3 = [slash]
               then Some (pat, repl) else None)
      else None)"

fun replace_first :: "string \<Rightarrow> string \<Rightarrow> string \<Rightarrow> string" where
  "replace_first pat repl [] = []"
| "replace_first pat repl (c # cs) =
     (if prefix pat (c # cs) then repl @ drop (length pat) (c # cs)
      else c # replace_first pat repl cs)"

fun splitlines :: "string \<Rightarrow> string list" where
  "splitlines [] = [[]]"
| "splitlines (c # cs) =
     (if c = newline then [] # splitlines cs
      else (case splitlines cs of l # ls \<Rightarrow> (c # l) # ls | [] \<Rightarrow> [[c]]))"

fun joinlines :: "string list \<Rightarrow> string" where
  "joinlines [] = []"
| "joinlines [l] = l"
| "joinlines (l # ls) = l @ [newline] @ joinlines ls"

definition substitute :: "string \<Rightarrow> string \<Rightarrow> string \<Rightarrow> string" where
  "substitute pat repl content = joinlines (map (replace_first pat repl) (splitlines content))"

definition run_sed :: "string \<Rightarrow> path \<Rightarrow> world \<Rightarrow> error option \<times> world" where
  "run_sed script p w =
     (if \<not> sed_binary w then (Some (Error ''exec: sed: executable file not found''), w)
      else (case map_of (files w) p of
              Some (File c) \<Rightarrow>
                (case parse_script script of
                   Some (pat, repl) \<Rightarrow>
                     (None, w\<lparr> files := write_entries [(p, File (substitute pat repl c))] (files w) \<rparr>)
                 | None \<Rightarrow>
                     (case sed_other w script c of
                        Inl e \<Rightarrow> (Some e, w)
                      | Inr c' \<Rightarrow> (None, w\<lparr> files := write_entries [(p, File c')] (files w) \<rparr>)))
            | _ \<Rightarrow> (Some (Error (''sed: cannot read '' @ p)), w)))"

definition ExecShell :: "string \<Rightarrow> string list \<Rightarrow> world \<Rightarrow> error option \<times> world" where
  "ExecShell command args w =
     (case args of
        [flag, script, p] \<Rightarrow>
          (if command = ''sed'' \<and> flag = ''-i'' then run_sed script p w
           else (Some (Error ''command not interpreted''), w))
      | _ \<Rightarrow> (Some (Error ''command not interpreted''), w))"

subsection \<open>The version-control client\<close>

text \<open>
  \<open>git.PlainInit\<close>, \<open>RemoveReference\<close> and \<open>CreateRemote\<close> belong to the library \<open>go-git\<close>. A
  repository is its list of commits (oldest first), the reference \<open>HEAD\<close> points at, the
  references with the index of their commit, and the remotes.
\<close>

definition empty_repository :: repository where
  "empty_repository = \<lparr> commits = [], HEAD = ''refs/heads/master'', refs = [], remotes = [] \<rparr>"

definition set_repository :: "path \<Rightarrow> repository \<Rightarrow> world \<Rightarrow> world" where
  "set_repository p r w =
     w\<lparr> repositories := (p, r) # filter (\<lambda>e. fst e \<noteq> p) (repositories w) \<rparr>"

definition no_repository :: "path \<Rightarrow> error" where
  "no_repository p = Error (''repository does not exist: '' @ p)"

definition PlainInit :: "path \<Rightarrow> world \<Rightarrow> error option \<times> world" where
  "PlainInit p w =
     (case map_of (repositories w) p of
        Some r \<Rightarrow> (Some (Error ''repository already exists''), w)
      | None \<Rightarrow>
          (None, set_repository p empty_repository
                   (w\<lparr> files := write_entries [(p @ ''/.git'', Dir)] (files w) \<rparr>)))"

text \<open>Modelled from the spec: \<open>gitClient.Commit\<close> is not among the files at hand. It stages
  and commits all content as one commit with the given message; the branch that \<open>HEAD\<close> names
  then points at the new commit.\<close>

definition Commit :: "path \<Rightarrow> string \<Rightarrow> world \<Rightarrow> error option \<times> world" where
  "Commit p msg w =
     (case map_of (repositories w) p of
        None \<Rightarrow> (Some (no_repository p), w)
      | Some r \<Rightarrow>
          (None, set_repository p
                   (r\<lparr> commits := commits r @ [msg],
                       refs := (HEAD r, length (commits r)) # filter (\<lambda>e. fst e \<noteq> HEAD r) (refs r) \<rparr>) w))"

text \<open>Modelled from the spec: \<open>gitClient.SetRefToMainBranch\<close> is not among the files at hand. It
  makes the canonical main branch the default branch: the branch \<open>refs/heads/main\<close> is set to
  the commit of \<open>HEAD\<close> and \<open>HEAD\<close> is pointed at it. Without a commit there is nothing to
  point at, which is an error. The legacy branch is left for the caller to remove.\<close>

definition SetRefToMainBranch :: "path \<Rightarrow> world \<Rightarrow> error option \<times> world" where
  "SetRefToMainBranch p w =
     (case map_of (repositories w) p of
        None \<Rightarrow> (Some (no_repository p), w)
      | Some r \<Rightarrow>
          (case map_of (refs r) (HEAD r) of
             None \<Rightarrow> (Some (Error ''reference not found''), w)
           | Some h \<Rightarrow>
               (None, set_repository p
                        (r\<lparr> HEAD := ''refs/heads/main'',
                            refs := (''refs/heads/main'', h)
                                      # filter (\<lambda>e. fst e \<noteq> ''refs/heads/main'') (refs r) \<rparr>) w)))"

definition RemoveRef :: "path \<Rightarrow> string \<Rightarrow> world \<Rightarrow> error option \<times> world" where
  "RemoveRef p name w =
     (case map_of (repositories w) p of
        None \<Rightarrow> (Some (no_repository p), w)
      | Some r \<Rightarrow> (None, set_repository p (r\<lparr> refs := filter (\<lambda>e. fst e \<noteq> name) (refs r) \<rparr>) w))"

definition NewRemote :: "path \<Rightarrow> string \<Rightarrow> string list \<Rightarrow> world \<Rightarrow> error option \<times> world" where
  "NewRemote p name urls w =
     (case map_of (repositories w) p of
        None \<Rightarrow> (Some (no_repository p), w)
      | Some r \<Rightarrow>
          (if name = [] then (Some (Error ''remote config: empty name''), w)
           else if urls = [] then (Some (Error ''remote config: empty URL''), w)
           else if map_of (remotes r) name \<noteq> None then (Some (Error ''remote already exists''), w)
           else (None, set_repository p (r\<lparr> remotes := remotes r @ [(name, urls)] \<rparr>) w)))"

subsection \<open>The reference system\<close>

fun exec_call :: "world system" where
  "exec_call (os_RemoveAll p) w = RemoveAll p w"
| "exec_call (os_Remove p) w = Remove p w"
| "exec_call (os_Mkdir p) w = Mkdir p w"
| "exec_call (cp_Copy src dest opt) w = Copy src dest opt w"
| "exec_call (ExecShellReturnStrings command args) w = ExecShell command args w"
| "exec_call (git_PlainInit p) w = PlainInit p w"
| "exec_call (gitClient_Commit p msg) w = Commit p msg w"
| "exec_call (gitClient_SetRefToMainBranch p) w = SetRefToMainBranch p w"
| "exec_call (RemoveReference p name) w = RemoveRef p name w"
| "exec_call (CreateRemote p name urls) w = NewRemote p name urls w"

section \<open>The two functions as scripts of calls\<close>

text \<open>
  Each function issues a fixed sequence of calls and treats the error of each call in one of
  three ways: it drops it, it returns it, or it returns it wrapped in a message. A script lists
  the calls with their treatment; the lemmas of the section on scripts show that each function
  equals the run of its script, on any system.
\<close>

datatype policy = Ignore | Check | Wrap string

type_synonym script = "(call \<times> policy) list"

fun run_script :: "'w system \<Rightarrow> script \<Rightarrow> 'w \<Rightarrow> error option \<times> 'w" where
  "run_script sys [] w = (None, w)"
| "run_script sys ((c, Ignore) # rest) w = run_script sys rest (snd (sys c w))"
| "run_script sys ((c, Check) # rest) w = andThen (sys c w) (run_script sys rest)"
| "run_script sys ((c, Wrap pre) # rest) w = andThen (wrapErr pre (sys c w)) (run_script sys rest)"

fun trace_of :: "'w system \<Rightarrow> script \<Rightarrow> 'w \<Rightarrow> trace" where
  "trace_of sys [] w = []"
| "trace_of sys ((c, pol) # rest) w =
     (c, fst (sys c w)) #
     (if pol \<noteq> Ignore \<and> fst (sys c w) \<noteq> None then [] else trace_of sys rest (snd (sys c w)))"

definition populate_script :: "string list \<Rightarrow> string \<Rightarrow> string \<Rightarrow> string \<Rightarrow> string \<Rightarrow> script" where
  "populate_script SupportedPlatforms clusterName clusterType gitopsRepoDir gitProvider =
     map (\<lambda>platform. (os_RemoveAll (gitopsRepoDir @ ''/'' @ platform), Ignore))
       (filter (\<lambda>platform. platform \<noteq> CloudProvider @ ''-'' @ gitProvider) SupportedPlatforms)
     @ [(cp_Copy (gitopsRepoDir @ ''/'' @ CloudProvider @ ''-'' @ gitProvider @ ''/'') gitopsRepoDir
           (Options (Some Skip)), Check),
        (os_RemoveAll (gitopsRepoDir @ ''/'' @ CloudProvider @ ''-'' @ gitProvider @ ''/''), Ignore),
        (cp_Copy (gitopsRepoDir @ ''/cluster-types/'' @ clusterType)
           (gitopsRepoDir @ ''/registry/'' @ clusterName) (Options (Some Skip)), Check)]"

definition finish_script :: "string \<Rightarrow> string \<Rightarrow> string \<Rightarrow> string \<Rightarrow> string \<Rightarrow> bool \<Rightarrow> script" where
  "finish_script LocalhostARCH cloudProvider clusterName gitopsRepoDir gitopsRepoName removeAtlantis =
     [(os_RemoveAll (gitopsRepoDir @ ''/cluster-types''), Ignore),
      (os_RemoveAll (gitopsRepoDir @ ''/services''), Ignore),
      (os_Remove (gitopsRepoDir @ ''/registry/'' @ clusterName @
                    (if LocalhostARCH = ''arm64'' \<and> cloudProvider = CloudProvider
                     then ''/components/kubefirst/console.yaml''
                     else ''/components/kubefirst/console-arm.yaml'')), Ignore)]
     @ (if removeAtlantis
        then [(os_Remove (gitopsRepoDir @ ''/registry/'' @ clusterName @ ''/atlantis.yaml''), Ignore)]
        else [])
     @ [(cp_Copy (gitopsRepoDir @ ''/terraform/github/repos.tf.tmpl'')
           (gitopsRepoDir @ ''/terraform/github/repos.tf'') (Options None), Check),
        (ExecShellReturnStrings ''sed''
           [''-i'', ''s/GITOPS_REPO_NAME/'' @ [dquote] @ gitopsRepoName @ [dquote] @ ''/'',
            gitopsRepoDir @ ''/terraform/github/repos.tf''], Check)]"

definition ci_script :: "string \<Rightarrow> string \<Rightarrow> string \<Rightarrow> script" where
  "ci_script gitProvider k1Dir metaphorDir =
     (if gitProvider = ''github''
      then [(cp_Copy (k1Dir @ ''/gitops/ci/.github'') (metaphorDir @ ''/.github'') (Options (Some Skip)), Check)]
      else if gitProvider = ''gitlab''
      then [(cp_Copy (k1Dir @ ''/gitops/ci/.gitlab-ci.yml'') (metaphorDir @ ''/.gitlab-ci.yml'')
               (Options (Some Skip)), Check)]
      else [])"

definition publish_script :: "string \<Rightarrow> string \<Rightarrow> string \<Rightarrow> path \<Rightarrow> script" where
  "publish_script destinationMetaphorRepoGitURL gitopsRepoDir metaphorRepoName metaphorRepo =
     [(gitClient_Commit metaphorRepo ''committing initial detokenized metaphor repo content'', Check),
      (gitClient_SetRefToMainBranch metaphorRepo, Check),
      (RemoveReference metaphorRepo ''refs/heads/master'', Wrap ''error removing previous git ref: ''),
      (ExecShellReturnStrings ''sed''
         [''-i'', ''s/METAPHOR_REPO_NAME/'' @ [dquote] @ metaphorRepoName @ [dquote] @ ''/'',
          gitopsRepoDir @ ''/terraform/github/repos.tf''],
       Wrap ''error replacing gitops repo name in repos.tf: ''),
      (CreateRemote metaphorRepo ''origin'' [destinationMetaphorRepoGitURL],
       Wrap (''error problem creating Metaphore repo: URL='' @ destinationMetaphorRepoGitURL @ '': ''))]"

definition metaphor_script :: "string \<Rightarrow> string \<Rightarrow> string \<Rightarrow> string \<Rightarrow> string \<Rightarrow> script" where
  "metaphor_script destinationMetaphorRepoGitURL gitopsRepoDir metaphorRepoName gitProvider k1Dir =
     [(os_Mkdir (k1Dir @ ''/metaphor''), Ignore),
      (git_PlainInit (k1Dir @ ''/metaphor''), Check),
      (cp_Copy (gitopsRepoDir @ ''/metaphor'') (k1Dir @ ''/metaphor'') (Options (Some Skip)), Check)]
     @ ci_script gitProvider k1Dir (k1Dir @ ''/metaphor'')
     @ [(cp_Copy (k1Dir @ ''/gitops/ci/.argo'') (k1Dir @ ''/metaphor/.argo'') (Options (Some Skip)), Check),
        (os_Mkdir (k1Dir @ ''/metaphor/build''), Ignore),
        (cp_Copy (k1Dir @ ''/metaphor/Dockerfile'') (k1Dir @ ''/metaphor/build/Dockerfile'')
           (Options (Some Skip)), Check),
        (os_RemoveAll (gitopsRepoDir @ ''/ci''), Ignore),
        (os_RemoveAll (gitopsRepoDir @ ''/metaphor''), Ignore)]
     @ publish_script destinationMetaphorRepoGitURL gitopsRepoDir metaphorRepoName (k1Dir @ ''/metaphor'')"

section \<open>Reading a trace\<close>

text \<open>The calls whose error the two functions test: every call but the three of the
  operating system that delete or create, whose result is dropped.\<close>

fun checked :: "call \<Rightarrow> bool" where
  "checked (os_RemoveAll p) = False"
| "checked (os_Remove p) = False"
| "checked (os_Mkdir p) = False"
| "checked c = True"

text \<open>A trace stops at the first failure of a checked call, whose error is the result; a
  failure of any other call changes nothing; without a failure of a checked call the result is
  \<open>nil\<close>.\<close>

fun stops_at_first_failure :: "trace \<Rightarrow> error option \<Rightarrow> bool" where
  "stops_at_first_failure [] err = (err = None)"
| "stops_at_first_failure ((c, r) # tr) err =
     (if checked c \<and> r \<noteq> None then tr = [] \<and> err = r else stops_at_first_failure tr err)"

text \<open>A script obeys the discipline of \<open>AdjustGitopsRepo\<close> when the error of every checked
  call is returned as it is and the result of every other call is dropped.\<close>

definition disciplined :: "script \<Rightarrow> bool" where
  "disciplined steps = list_all (\<lambda>s. if checked (fst s) then snd s = Check else snd s = Ignore) steps"

text \<open>The name and the path arguments of a call, for comparing traces.\<close>

fun describe :: "call \<Rightarrow> string list" where
  "describe (os_RemoveAll p) = [''os.RemoveAll'', p]"
| "describe (os_Remove p) = [''os.Remove'', p]"
| "describe (os_Mkdir p) = [''os.Mkdir'', p]"
| "describe (cp_Copy src dest opt) = [''cp.Copy'', src, dest]"
| "describe (ExecShellReturnStrings command args) = ''pkg.ExecShellReturnStrings'' # command # args"
| "describe (git_PlainInit p) = [''git.PlainInit'', p]"
| "describe (gitClient_Commit p msg) = [''gitClient.Commit'', p, msg]"
| "describe (gitClient_SetRefToMainBranch p) = [''gitClient.SetRefToMainBranch'', p]"
| "describe (RemoveReference p name) = [''RemoveReference'', p, name]"
| "describe (CreateRemote p name urls) = ''CreateRemote'' # p # name # urls"

section \<open>Example worlds\<close>

text \<open>A template root \<open>g\<close> with the variants \<open>aws-github\<close> and \<open>k3d-github\<close>, the cluster type
  \<open>local\<close> and the \<open>services\<close> subtree.\<close>

definition gitops_world :: world where
  "gitops_world =
     \<lparr> files = [(''g/aws-github/main.tf'', File ''aws''),
                (''g/k3d-github/main.tf'', File ''k3d''),
                (''g/k3d-github/terraform/github/repos.tf.tmpl'', File ''repo_name = GITOPS_REPO_NAME''),
                (''g/cluster-types/local/atlantis.yaml'', File ''atlantis''),
                (''g/cluster-types/local/components/kubefirst/console.yaml'', File ''amd''),
                (''g/cluster-types/local/components/kubefirst/console-arm.yaml'', File ''arm''),
                (''g/services/readme'', File ''legacy'')],
       refused = (\<lambda>p. False),
       repositories = [], sed_binary = True, sed_other = (\<lambda>script content. Inr content) \<rparr>"

text \<open>The same root when the cluster type \<open>local\<close> ships no ARM console manifest.\<close>

definition gitops_world_no_arm :: world where
  "gitops_world_no_arm =
     gitops_world\<lparr> files := filter (\<lambda>e. fst e \<noteq> ''g/cluster-types/local/components/kubefirst/console-arm.yaml'')
                                 (files gitops_world) \<rparr>"

text \<open>The same root when the operating system refuses to remove the ARM console manifest
  and the Atlantis manifest of the registry of the cluster \<open>dev\<close>.\<close>

definition gitops_world_locked :: world where
  "gitops_world_locked =
     gitops_world\<lparr> refused := (\<lambda>p. p = ''g/registry/dev/components/kubefirst/console-arm.yaml''
                                    \<or> p = ''g/registry/dev/atlantis.yaml'') \<rparr>"

text \<open>The locked world after the copy of the driver content and of the cluster type
  \<open>local\<close> into the registry of \<open>dev\<close>.\<close>

definition populated_locked :: world where
  "populated_locked =
     \<lparr> files = [(''g/registry/dev'', Dir),
                (''g/registry/dev/atlantis.yaml'', File ''atlantis''),
                (''g/registry/dev/components/kubefirst/console.yaml'', File ''amd''),
                (''g/registry/dev/components/kubefirst/console-arm.yaml'', File ''arm''),
                (''g'', Dir),
                (''g/main.tf'', File ''k3d''),
                (''g/terraform/github/repos.tf.tmpl'', File ''repo_name = GITOPS_REPO_NAME''),
                (''g/cluster-types/local/atlantis.yaml'', File ''atlantis''),
                (''g/cluster-types/local/components/kubefirst/console.yaml'', File ''amd''),
                (''g/cluster-types/local/components/kubefirst/console-arm.yaml'', File ''arm''),
                (''g/services/readme'', File ''legacy'')],
       refused = (\<lambda>p. p = ''g/registry/dev/components/kubefirst/console-arm.yaml''
                          \<or> p = ''g/registry/dev/atlantis.yaml''),
       repositories = [], sed_binary = True, sed_other = (\<lambda>script content. Inr content) \<rparr>"

text \<open>A base directory \<open>k\<close> with the CI content of both providers.\<close>

definition ci_world :: world where
  "ci_world =
     \<lparr> files = [(''k/gitops/ci/.gitlab-ci.yml'', File ''stages: [build]''),
                (''k/gitops/ci/.github/workflows/main.yaml'', File ''on: push'')],
       refused = (\<lambda>p. False),
       repositories = [], sed_binary = True, sed_other = (\<lambda>script content. Inr content) \<rparr>"

text \<open>The system on which every call succeeds and changes nothing.\<close>

definition always_ok :: "unit system" where
  "always_ok c w = (None, w)"

section \<open>The footprint of a call\<close>

text \<open>The paths whose entry a call may change in the file tree of the reference world.\<close>

fun touches :: "call \<Rightarrow> path \<Rightarrow> bool" where
  "touches (os_RemoveAll p) q = under (trim p) q"
| "touches (os_Remove p) q = (q = p)"
| "touches (os_Mkdir p) q = (q = trim p)"
| "touches (cp_Copy src dest opt) q = under (trim dest) q"
| "touches (ExecShellReturnStrings command args) q = (length args = 3 \<and> q = args ! 2)"
| "touches (git_PlainInit p) q = (q = p @ ''/.git'')"
| "touches (gitClient_Commit p msg) q = False"
| "touches (gitClient_SetRefToMainBranch p) q = False"
| "touches (RemoveReference p name) q = False"
| "touches (CreateRemote p name urls) q = False"

section \<open>Properties of the copy filter\<close>

lemma Index_nonneg_iff: "0 \<le> Index s substr \<longleftrightarrow> sublist substr s"
proof (induction s)
  case Nil
  then show ?case by simp
next
  case (Cons c cs)
  show ?case
  proof (cases "prefix substr (c # cs)")
    case True
    then show ?thesis by (simp add: prefix_imp_sublist)
  next
    case False
    then show ?thesis using Cons
      by (auto simp: Let_def sublist_Cons_right)
  qed
qed

lemma Index_lower: "- 1 \<le> Index s substr"
  by (induction s) (auto simp: Let_def)

lemma Index_zero_iff: "Index s substr = 0 \<longleftrightarrow> prefix substr s"
proof (cases s)
  case Nil
  then show ?thesis by simp
next
  case (Cons c cs)
  have "- 1 \<le> Index cs substr" by (rule Index_lower)
  then show ?thesis using Cons by (auto simp: Let_def)
qed

lemma Index_pos_iff: "0 < Index s substr \<longleftrightarrow> sublist substr s \<and> \<not> prefix substr s"
proof -
  have "0 < Index s substr \<longleftrightarrow> 0 \<le> Index s substr \<and> Index s substr \<noteq> 0" by auto
  then show ?thesis by (simp only: Index_nonneg_iff Index_zero_iff)
qed


section \<open>Scripts\<close>

lemma andThen_return [simp]: "andThen r (\<lambda>w. (None, w)) = r"
  by (auto simp: andThen_def split: prod.splits option.splits)

lemma andThen_None [simp]: "andThen (None, w) k = k w"
  by (simp add: andThen_def)

lemma andThen_assoc: "andThen (andThen r k) k' = andThen r (\<lambda>w. andThen (k w) k')"
  by (auto simp: andThen_def split: prod.splits option.splits)

lemma run_script_fun:
  "run_script sys [] = (\<lambda>w. (None, w))"
  "run_script sys ((c, Ignore) # rest) = (\<lambda>w. run_script sys rest (snd (sys c w)))"
  "run_script sys ((c, Check) # rest) = (\<lambda>w. andThen (sys c w) (run_script sys rest))"
  "run_script sys ((c, Wrap pre) # rest) = (\<lambda>w. andThen (wrapErr pre (sys c w)) (run_script sys rest))"
  by (rule ext, simp)+

lemma run_script_append:
  "run_script sys (a @ b) w = andThen (run_script sys a w) (run_script sys b)"
proof (induction a arbitrary: w)
  case Nil
  then show ?case by simp
next
  case (Cons s a)
  obtain c pol where s: "s = (c, pol)" by (cases s)
  have ih: "run_script sys (a @ b) = (\<lambda>w. andThen (run_script sys a w) (run_script sys b))"
    by (rule ext) (rule Cons)
  show ?case
    by (cases pol) (simp_all add: s ih andThen_assoc)
qed

lemma run_script_append_fun:
  "run_script sys (a @ b) = (\<lambda>w. andThen (run_script sys a w) (run_script sys b))"
  by (rule ext) (rule run_script_append)

lemma run_script_ignored:
  "run_script sys (map (\<lambda>p. (f p, Ignore)) ps) w = (None, snd (run_script sys (map (\<lambda>p. (f p, Ignore)) ps) w))"
  by (induction ps arbitrary: w) simp_all

lemma clean_up_platforms_script:
  "run_script sys (map (\<lambda>platform. (os_RemoveAll (dir @ ''/'' @ platform), Ignore))
       (filter (\<lambda>platform. platform \<noteq> CloudProvider @ ''-'' @ gp) ps)) w
   = (None, clean_up_platforms sys ps dir gp w)"
  by (induction ps arbitrary: w) simp_all

lemma populate_is_script:
  "AdjustGitopsRepo_populate sys ps cn ct dir gp w = run_script sys (populate_script ps cn ct dir gp) w"
  unfolding AdjustGitopsRepo_populate_def populate_script_def run_script_append
    clean_up_platforms_script Let_def
  by (simp add: run_script_fun)

lemma finish_is_script:
  "AdjustGitopsRepo_finish sys arch cp cn dir name ra = run_script sys (finish_script arch cp cn dir name ra)"
  by (rule ext) (simp add: AdjustGitopsRepo_finish_def finish_script_def Let_def run_script_fun)

lemma AdjustGitopsRepo_is_script:
  "AdjustGitopsRepo sys ps arch cp cn ct dir name gp k1 ra w =
     run_script sys (populate_script ps cn ct dir gp @ finish_script arch cp cn dir name ra) w"
  by (simp add: AdjustGitopsRepo_def run_script_append populate_is_script finish_is_script)

lemma ci_is_script:
  "copy_ci_content sys gp k1 mdir (Options (Some Skip)) = run_script sys (ci_script gp k1 mdir)"
  by (rule ext) (simp add: copy_ci_content_def ci_script_def run_script_fun)

lemma publish_is_script:
  "AdjustMetaphorRepo_publish sys url dir name repo = run_script sys (publish_script url dir name repo)"
  by (rule ext) (simp add: AdjustMetaphorRepo_publish_def publish_script_def Let_def run_script_fun)

lemma AdjustMetaphorRepo_is_script:
  "AdjustMetaphorRepo sys url dir name gp k1 w = run_script sys (metaphor_script url dir name gp k1) w"
  by (simp add: AdjustMetaphorRepo_def metaphor_script_def Let_def run_script_append_fun ci_is_script
      publish_is_script run_script_fun)

section \<open>The copy filter, settled\<close>

text \<open>
  Claim C9. The copy filter used by both functions is a function of the path alone and never
  returns an error. It skips exactly the paths that end with \<open>.git\<close> (a file \<open>repo.git\<close> as
  well as a directory \<open>.git\<close>) and the paths in which \<open>strings.Index\<close> finds \<open>/.terraform\<close> at
  an index greater than zero, that is, the paths that contain \<open>/.terraform\<close> without beginning
  with it: \<open>x/.terraform-cache\<close> is skipped, and a path beginning with \<open>/.terraform\<close> is not
  skipped by this rule.
\<close>

theorem Skip_first_occurrence:
  "Skip src = (suffix ''.git'' src \<or> (sublist ''/.terraform'' src \<and> \<not> prefix ''/.terraform'' src), None)"
  by (simp add: Skip_def HasSuffix_def Index_pos_iff)

theorem Skip_first_occurrence_witness:
  "Skip ''x/.terraform-cache'' = (True, None) \<and> Skip ''repo.git'' = (True, None)
   \<and> Skip ''/.terraform'' = (False, None) \<and> Skip ''/.terraform.git'' = (True, None)"
  using Skip_first_occurrence [of "''x/.terraform-cache''"] Skip_first_occurrence [of "''repo.git''"]
    Skip_first_occurrence [of "''/.terraform''"] Skip_first_occurrence [of "''/.terraform.git''"]
  by (simp add: Skip_def HasSuffix_def suffix_def Let_def)

section \<open>Properties of GetConfig\<close>

text \<open>
  Claim C10, as amended. For every \<open>gitProvider\<close> other than \<open>github\<close> and \<open>gitlab\<close>:
  when \<open>os.UserHomeDir\<close> succeeds, \<open>GetConfig\<close> returns a config whose four destination URLs
  are built with an empty host (the two HTTPS URLs are \<open>https:///{owner}/{repo}.git\<close> and the
  two SSH URLs are \<open>git@:{owner}/{repo}.git\<close>); when \<open>os.UserHomeDir\<close> fails, \<open>log.Fatal\<close> ends
  the process and \<open>GetConfig\<close> returns nothing.
\<close>

theorem GetConfig_other_provider_empty_host:
  assumes "gitProvider \<noteq> ''github''" and "gitProvider \<noteq> ''gitlab''"
  shows "case userHomeDir of
           Inl err \<Rightarrow>
             GetConfig parsed userHomeDir configName clusterName gitopsRepoName metaphorRepoName
               gitProvider gitOwner gitProtocol = None
         | Inr homeDir \<Rightarrow>
             (\<exists>cfg. GetConfig parsed userHomeDir configName clusterName gitopsRepoName
                       metaphorRepoName gitProvider gitOwner gitProtocol = Some cfg
                \<and> DestinationGitopsRepoURL cfg = ''https:///'' @ gitOwner @ ''/'' @ gitopsRepoName @ ''.git''
                \<and> DestinationMetaphorRepoURL cfg = ''https:///'' @ gitOwner @ ''/'' @ metaphorRepoName @ ''.git''
                \<and> DestinationGitopsRepoGitURL cfg = ''git@:'' @ gitOwner @ ''/'' @ gitopsRepoName @ ''.git''
                \<and> DestinationMetaphorRepoGitURL cfg = ''git@:'' @ gitOwner @ ''/'' @ metaphorRepoName @ ''.git'')"
  using assms by (cases userHomeDir) (simp_all add: GetConfig_def cGitHost_def Let_def)

theorem GetConfig_other_provider_empty_host_witness:
  "''bitbucket'' \<noteq> ''github'' \<and> ''bitbucket'' \<noteq> ''gitlab''
   \<and> (\<exists>cfg. GetConfig zero_config (Inr ''/home/u'') ''cfg'' ''dev'' ''gitops'' ''metaphor''
               ''bitbucket'' ''acme'' ''ssh'' = Some cfg
         \<and> DestinationGitopsRepoURL cfg = ''https:///acme/gitops.git''
         \<and> DestinationMetaphorRepoURL cfg = ''https:///acme/metaphor.git''
         \<and> DestinationGitopsRepoGitURL cfg = ''git@:acme/gitops.git''
         \<and> DestinationMetaphorRepoGitURL cfg = ''git@:acme/metaphor.git'')"
  using GetConfig_other_provider_empty_host [where gitProvider = "''bitbucket''" and parsed = zero_config
      and userHomeDir = "Inr ''/home/u''" and configName = "''cfg''" and clusterName = "''dev''"
      and gitopsRepoName = "''gitops''" and metaphorRepoName = "''metaphor''" and gitOwner = "''acme''"
      and gitProtocol = "''ssh''"]
  by simp

text \<open>
  Claim C10 as it is worded fails: it promises a config for every such provider, but when the
  home directory cannot be found (\<open>$HOME\<close> is not set) \<open>GetConfig\<close> does not return.
\<close>

theorem GetConfig_no_home_counterexample:
  "GetConfig zero_config (Inl (Error ''$HOME is not defined'')) ''cfg'' ''dev'' ''gitops'' ''metaphor''
     ''bitbucket'' ''acme'' ''ssh'' = None"
  by (simp add: GetConfig_def)

section \<open>Traces of scripts\<close>

lemma traced_pair:
  "traced sys c (w, tr) = (fst (sys c w), (snd (sys c w), tr @ [(c, fst (sys c w))]))"
  by (simp add: traced_def split: prod.splits)

lemma run_script_traced:
  "run_script (traced sys) steps (w, tr) =
     (fst (run_script sys steps w), (snd (run_script sys steps w), tr @ trace_of sys steps w))"
proof (induction steps arbitrary: w tr)
  case Nil
  then show ?case by simp
next
  case (Cons s steps)
  obtain c pol where s: "s = (c, pol)" by (cases s)
  obtain e w' where r: "sys c w = (e, w')" by (cases "sys c w")
  show ?case
  proof (cases pol)
    case Ignore
    then show ?thesis by (simp add: s r traced_pair Cons)
  next
    case Check
    then show ?thesis by (cases e) (simp_all add: s r traced_pair Cons andThen_def)
  next
    case (Wrap pre)
    then show ?thesis by (cases e) (simp_all add: s r traced_pair Cons andThen_def wrapErr_def)
  qed
qed

lemma trace_of_ignored_prefix:
  "map fst (trace_of sys (map (\<lambda>p. (f p, Ignore)) ps @ b) w) =
     map f ps @ map fst (trace_of sys b (snd (run_script sys (map (\<lambda>p. (f p, Ignore)) ps) w)))"
  by (induction ps arbitrary: w) simp_all

lemma disciplined_stops:
  "disciplined steps \<Longrightarrow> stops_at_first_failure (trace_of sys steps w) (fst (run_script sys steps w))"
proof (induction steps arbitrary: w)
  case Nil
  then show ?case by simp
next
  case (Cons s steps)
  obtain c pol where s: "s = (c, pol)" by (cases s)
  obtain e w' where r: "sys c w = (e, w')" by (cases "sys c w")
  from Cons.prems have d: "disciplined steps"
    and p: "if checked c then pol = Check else pol = Ignore"
    by (auto simp: disciplined_def s split: if_splits)
  show ?case
  proof (cases "checked c")
    case True
    with p have "pol = Check" by simp
    then show ?thesis using True Cons.IH [OF d, of w']
      by (cases e) (simp_all add: s r andThen_def)
  next
    case False
    with p have "pol = Ignore" by simp
    then show ?thesis using False Cons.IH [OF d, of w'] by (simp add: s r)
  qed
qed

lemma success_runs_all:
  "fst (run_script sys steps w) = None \<Longrightarrow> map fst (trace_of sys steps w) = map fst steps"
proof (induction steps arbitrary: w)
  case Nil
  then show ?case by simp
next
  case (Cons s steps)
  obtain c pol where s: "s = (c, pol)" by (cases s)
  obtain e w' where r: "sys c w = (e, w')" by (cases "sys c w")
  show ?case
  proof (cases pol)
    case Ignore
    then show ?thesis using Cons by (simp add: s r)
  next
    case Check
    then show ?thesis using Cons by (cases e) (simp_all add: s r andThen_def)
  next
    case (Wrap pre)
    then show ?thesis using Cons by (cases e) (simp_all add: s r andThen_def wrapErr_def)
  qed
qed

lemma disciplined_gitops:
  "disciplined (populate_script ps cn ct dir gp @ finish_script arch cp cn dir name ra)"
  by (auto simp: disciplined_def populate_script_def finish_script_def list_all_iff)

lemma last_call_gitops:
  "last (map fst (populate_script ps cn ct dir gp @ finish_script arch cp cn dir name ra)) =
     ExecShellReturnStrings ''sed''
       [''-i'', ''s/GITOPS_REPO_NAME/'' @ [dquote] @ name @ [dquote] @ ''/'',
        dir @ ''/terraform/github/repos.tf'']"
  by (simp add: finish_script_def)

section \<open>The file tree of the reference world\<close>

lemma map_of_delete_tree:
  "map_of (delete_tree keep d F) q = (if under d q \<and> \<not> keep q then None else map_of F q)"
  by (induction F) (auto simp: delete_tree_def)

lemma map_of_delete_entry:
  "map_of (delete_entry p F) q = (if q = p then None else map_of F q)"
  by (induction F) (auto simp: delete_entry_def)

lemma map_of_filter_notin:
  "q \<notin> S \<Longrightarrow> map_of (filter (\<lambda>e. fst e \<notin> S) F) q = map_of F q"
  by (induction F) auto

lemma map_of_write_entries:
  "map_of (write_entries new F) q = (case map_of new q of Some n \<Rightarrow> Some n | None \<Rightarrow> map_of F q)"
proof (cases "map_of new q")
  case None
  then have "q \<notin> fst ` set new" by (simp add: map_of_eq_None_iff)
  then show ?thesis using None
    by (simp add: write_entries_def map_add_def map_of_filter_notin)
next
  case (Some n)
  then show ?thesis by (simp add: write_entries_def map_add_def)
qed

lemma copy_entries_below:
  "e \<in> set (copy_entries opt s d F) \<Longrightarrow> prefix (d @ [slash]) (fst e)"
proof -
  assume "e \<in> set (copy_entries opt s d F)"
  then obtain x where x: "prefix (s @ [slash]) (fst x)" and e: "fst e = d @ drop (length s) (fst x)"
    by (auto simp: copy_entries_def)
  from x obtain r where "fst x = s @ [slash] @ r" by (auto simp: prefix_def)
  then show ?thesis using e by simp
qed

lemma map_of_copy_entries_outside:
  "\<not> under d q \<Longrightarrow> map_of (copy_entries opt s d F) q = None"
  using copy_entries_below [of _ opt s d F]
  by (auto simp: map_of_eq_None_iff under_def)

lemma trim_keep: "p \<noteq> [] \<Longrightarrow> last p \<noteq> slash \<Longrightarrow> trim p = p"
  by (cases p rule: rev_cases) (simp_all add: trim_def)

lemma frame_RemoveAll:
  "\<not> under (trim p) q \<Longrightarrow> map_of (files (snd (RemoveAll p w))) q = map_of (files w) q"
  by (simp add: RemoveAll_def map_of_delete_tree)

lemma frame_Remove:
  "q \<noteq> p \<Longrightarrow> map_of (files (snd (Remove p w))) q = map_of (files w) q"
  by (simp add: Remove_def map_of_delete_entry split: option.splits node.splits)

lemma refused_call: "refused (snd (exec_call c w)) = refused w"
  by (cases c)
    (auto simp: RemoveAll_def Remove_def Mkdir_def Copy_def Let_def ExecShell_def run_sed_def
      PlainInit_def Commit_def SetRefToMainBranch_def RemoveRef_def NewRemote_def set_repository_def
      split: option.splits node.splits list.splits sum.splits)

lemma frame_Mkdir:
  "q \<noteq> trim p \<Longrightarrow> map_of (files (snd (Mkdir p w))) q = map_of (files w) q"
  by (simp add: Mkdir_def map_of_write_entries)

lemma frame_Copy:
  "\<not> under (trim dest) q \<Longrightarrow> map_of (files (snd (Copy src dest opt w))) q = map_of (files w) q"
  by (auto simp: Copy_def Let_def map_of_write_entries map_of_copy_entries_outside under_def
      split: option.splits node.splits list.splits)

lemma frame_run_sed:
  "q \<noteq> p \<Longrightarrow> map_of (files (snd (run_sed script p w))) q = map_of (files w) q"
  by (simp add: run_sed_def map_of_write_entries split: option.splits node.splits sum.splits)

lemma frame_ExecShell:
  "\<not> (length args = 3 \<and> q = args ! 2) \<Longrightarrow>
   map_of (files (snd (ExecShell command args w))) q = map_of (files w) q"
  by (auto simp: ExecShell_def frame_run_sed split: list.splits)

lemma frame_PlainInit:
  "q \<noteq> p @ ''/.git'' \<Longrightarrow> map_of (files (snd (PlainInit p w))) q = map_of (files w) q"
  by (simp add: PlainInit_def set_repository_def map_of_write_entries split: option.splits)

lemma frame_git:
  "files (snd (Commit p msg w)) = files w"
  "files (snd (SetRefToMainBranch p w)) = files w"
  "files (snd (RemoveRef p name w)) = files w"
  "files (snd (NewRemote p name urls w)) = files w"
  by (simp_all add: Commit_def SetRefToMainBranch_def RemoveRef_def NewRemote_def set_repository_def
      split: option.splits)

lemma frame_call:
  "\<not> touches c q \<Longrightarrow> map_of (files (snd (exec_call c w))) q = map_of (files w) q"
  by (cases c)
    (simp_all add: frame_RemoveAll frame_Remove frame_Mkdir frame_Copy frame_ExecShell
      frame_PlainInit frame_git)

lemma snd_andThen:
  "snd (andThen r k) = (case fst r of Some e \<Rightarrow> snd r | None \<Rightarrow> snd (k (snd r)))"
  by (auto simp: andThen_def split: prod.splits option.splits)

lemma frame_script:
  "\<forall>s \<in> set steps. \<not> touches (fst s) q \<Longrightarrow>
   map_of (files (snd (run_script exec_call steps w))) q = map_of (files w) q"
proof (induction steps arbitrary: w)
  case Nil
  then show ?case by simp
next
  case (Cons s steps)
  obtain c pol where s: "s = (c, pol)" by (cases s)
  from Cons.prems have c: "\<not> touches c q" and rest: "\<forall>s \<in> set steps. \<not> touches (fst s) q"
    by (simp_all add: s)
  have step: "map_of (files (snd (exec_call c w))) q = map_of (files w) q"
    by (rule frame_call [OF c])
  have ih: "map_of (files (snd (run_script exec_call steps w'))) q = map_of (files w') q" for w'
    by (rule Cons.IH [OF rest])
  show ?case
  proof (cases pol)
    case Ignore
    then show ?thesis by (simp add: s ih step)
  next
    case Check
    then show ?thesis
      by (cases "fst (exec_call c w)") (simp_all add: s snd_andThen ih step)
  next
    case (Wrap pre)
    have "snd (wrapErr pre r) = snd r" "fst (wrapErr pre r) = None \<longleftrightarrow> fst r = None" for r :: "error option \<times> world"
      by (auto simp: wrapErr_def split: prod.splits option.splits)
    then show ?thesis using Wrap
      by (cases "fst (exec_call c w)") (auto simp: s snd_andThen ih step split: option.splits)
  qed
qed

section \<open>Properties of AdjustGitopsRepo on any system\<close>

text \<open>
  Claim C1, as amended. In \<open>AdjustGitopsRepo\<close> the variant retained and promoted is the pair
  formed from the package constant \<open>CloudProvider\<close> (\<open>k3d\<close>) and the caller's \<open>gitProvider\<close>
  argument; the caller's \<open>cloudProvider\<close> argument plays no part in the choice. On every
  system the run starts with one \<open>os.RemoveAll\<close> for each supported combination other than
  \<open>k3d-{gitProvider}\<close>, on its subtree under the template root and in the order of the list,
  and the next call copies the subtree \<open>k3d-{gitProvider}\<close> over the template root with the
  copy filter.
\<close>

theorem AdjustGitopsRepo_promotes_k3d_variant:
  "\<exists>rest. map fst (snd (snd (AdjustGitopsRepo (traced sys) SupportedPlatforms LocalhostARCH cloudProvider
              clusterName clusterType gitopsRepoDir gitopsRepoName gitProvider k1Dir removeAtlantis (w, [])))) =
     map (\<lambda>platform. os_RemoveAll (gitopsRepoDir @ ''/'' @ platform))
         (filter (\<lambda>platform. platform \<noteq> ''k3d-'' @ gitProvider) SupportedPlatforms)
     @ cp_Copy (gitopsRepoDir @ ''/k3d-'' @ gitProvider @ ''/'') gitopsRepoDir (Options (Some Skip)) # rest"
  unfolding AdjustGitopsRepo_is_script run_script_traced
  by (simp add: populate_script_def trace_of_ignored_prefix CloudProvider_def)

theorem AdjustGitopsRepo_promotes_k3d_variant_witness:
  "\<exists>rest. map fst (snd (snd (AdjustGitopsRepo (traced exec_call) [''aws-github'', ''k3d-github''] ''amd64''
              ''aws'' ''dev'' ''local'' ''g'' ''gitops'' ''github'' ''k'' False (gitops_world, [])))) =
     os_RemoveAll ''g/aws-github'' # cp_Copy ''g/k3d-github/'' ''g'' (Options (Some Skip)) # rest"
  using AdjustGitopsRepo_promotes_k3d_variant [of exec_call "[''aws-github'', ''k3d-github'']" "''amd64''"
      "''aws''" "''dev''" "''local''" "''g''" "''gitops''" "''github''" "''k''" False gitops_world]
  by simp

text \<open>
  Claim C1 as it is worded fails. The caller selects \<open>aws\<close> and \<open>github\<close> on a root that holds
  the variants \<open>aws-github\<close> and \<open>k3d-github\<close>: the run succeeds, the file promoted to the root
  is the one of \<open>k3d-github\<close>, and the subtree of the pair the caller selected is deleted
  without having been copied.
\<close>

theorem AdjustGitopsRepo_caller_pair_counterexample:
  "fst (AdjustGitopsRepo exec_call [''aws-github'', ''k3d-github''] ''amd64'' ''aws'' ''dev'' ''local'' ''g''
          ''gitops'' ''github'' ''k'' False gitops_world) = None
   \<and> map_of (files (snd (AdjustGitopsRepo exec_call [''aws-github'', ''k3d-github''] ''amd64'' ''aws'' ''dev''
          ''local'' ''g'' ''gitops'' ''github'' ''k'' False gitops_world))) ''g/main.tf'' = Some (File ''k3d'')
   \<and> \<not> path_exists (files (snd (AdjustGitopsRepo exec_call [''aws-github'', ''k3d-github''] ''amd64'' ''aws''
          ''dev'' ''local'' ''g'' ''gitops'' ''github'' ''k'' False gitops_world))) ''g/aws-github''"
  by code_simp

text \<open>
  Claim C2, as amended. On every system, a run of \<open>AdjustGitopsRepo\<close> stops at the first
  failure of a copy or of the substitution: that call is the last one of the run and its error
  is returned as it is. The results of the delete operations (\<open>os.RemoveAll\<close>, \<open>os.Remove\<close>)
  are dropped: a failing delete neither ends the run nor shows in the result, and a run
  without a failing copy or substitution returns \<open>nil\<close> after its last call, the substitution.
\<close>

theorem AdjustGitopsRepo_stops_at_first_checked_failure:
  "case AdjustGitopsRepo (traced sys) SupportedPlatforms LocalhostARCH cloudProvider clusterName
          clusterType gitopsRepoDir gitopsRepoName gitProvider k1Dir removeAtlantis (w, []) of
     (err, (w', tr)) \<Rightarrow>
       stops_at_first_failure tr err
       \<and> (err = None \<longrightarrow>
            tr \<noteq> [] \<and>
            fst (last tr) =
              ExecShellReturnStrings ''sed''
                [''-i'', ''s/GITOPS_REPO_NAME/'' @ [dquote] @ gitopsRepoName @ [dquote] @ ''/'',
                 gitopsRepoDir @ ''/terraform/github/repos.tf''])"
proof -
  let ?steps = "populate_script SupportedPlatforms clusterName clusterType gitopsRepoDir gitProvider
                @ finish_script LocalhostARCH cloudProvider clusterName gitopsRepoDir gitopsRepoName
                    removeAtlantis"
  let ?tr = "trace_of sys ?steps w"
  let ?err = "fst (run_script sys ?steps w)"
  have a: "stops_at_first_failure ?tr ?err"
    by (rule disciplined_stops [OF disciplined_gitops])
  have b: "?tr \<noteq> [] \<and> fst (last ?tr) =
              ExecShellReturnStrings ''sed''
                [''-i'', ''s/GITOPS_REPO_NAME/'' @ [dquote] @ gitopsRepoName @ [dquote] @ ''/'',
                 gitopsRepoDir @ ''/terraform/github/repos.tf'']" if "?err = None"
  proof -
    have m: "map fst ?tr = map fst ?steps" by (rule success_runs_all [OF that])
    have "?steps \<noteq> []" by (simp add: finish_script_def)
    with m have ne: "?tr \<noteq> []" by auto
    then have l: "fst (last ?tr) = last (map fst ?tr)" by (simp add: last_map)
    show ?thesis unfolding l m last_call_gitops using ne by simp
  qed
  show ?thesis
    unfolding AdjustGitopsRepo_is_script run_script_traced
    using a b by simp
qed

theorem AdjustGitopsRepo_stops_at_first_checked_failure_witness:
  "stops_at_first_failure
     (snd (snd (AdjustGitopsRepo (traced exec_call) [''aws-github'', ''k3d-github''] ''amd64'' ''k3d'' ''dev''
                  ''nowhere'' ''g'' ''gitops'' ''github'' ''k'' False (gitops_world, []))))
     (Some (Error ''lstat g/cluster-types/nowhere: no such file or directory''))
   \<and> map (describe \<circ> fst) (snd (snd (AdjustGitopsRepo (traced exec_call) [''aws-github'', ''k3d-github'']
                  ''amd64'' ''k3d'' ''dev'' ''nowhere'' ''g'' ''gitops'' ''github'' ''k'' False (gitops_world, []))))
       = [[''os.RemoveAll'', ''g/aws-github''], [''cp.Copy'', ''g/k3d-github/'', ''g''],
          [''os.RemoveAll'', ''g/k3d-github/''],
          [''cp.Copy'', ''g/cluster-types/nowhere'', ''g/registry/dev'']]"
proof -
  have e: "AdjustGitopsRepo (traced exec_call) [''aws-github'', ''k3d-github''] ''amd64'' ''k3d'' ''dev''
             ''nowhere'' ''g'' ''gitops'' ''github'' ''k'' False (gitops_world, []) =
           (Some (Error ''lstat g/cluster-types/nowhere: no such file or directory''),
            snd (AdjustGitopsRepo (traced exec_call) [''aws-github'', ''k3d-github''] ''amd64'' ''k3d'' ''dev''
             ''nowhere'' ''g'' ''gitops'' ''github'' ''k'' False (gitops_world, [])))"
    by (rule prod_eqI) (code_simp, simp)
  have d: "map (describe \<circ> fst) (snd (snd (AdjustGitopsRepo (traced exec_call) [''aws-github'', ''k3d-github'']
                  ''amd64'' ''k3d'' ''dev'' ''nowhere'' ''g'' ''gitops'' ''github'' ''k'' False (gitops_world, []))))
       = [[''os.RemoveAll'', ''g/aws-github''], [''cp.Copy'', ''g/k3d-github/'', ''g''],
          [''os.RemoveAll'', ''g/k3d-github/''],
          [''cp.Copy'', ''g/cluster-types/nowhere'', ''g/registry/dev'']]"
    by code_simp
  show ?thesis
    using AdjustGitopsRepo_stops_at_first_checked_failure [where sys = exec_call
        and SupportedPlatforms = "[''aws-github'', ''k3d-github'']" and LocalhostARCH = "''amd64''"
        and cloudProvider = "''k3d''" and clusterName = "''dev''" and clusterType = "''nowhere''"
        and gitopsRepoDir = "''g''" and gitopsRepoName = "''gitops''" and gitProvider = "''github''"
        and k1Dir = "''k''" and removeAtlantis = False and w = gitops_world] d
    by (subst (asm) e) (simp add: case_prod_beta)
qed

text \<open>
  Claim C2 as it is worded fails. The cluster type ships no ARM console manifest: the seventh
  call, \<open>os.Remove\<close> of that manifest, fails; the run goes on with the copy of the repository
  definition and the substitution, and returns \<open>nil\<close>.
\<close>

theorem AdjustGitopsRepo_failing_delete_counterexample:
  "fst (AdjustGitopsRepo (traced exec_call) [''aws-github'', ''k3d-github''] ''amd64'' ''k3d'' ''dev''
          ''local'' ''g'' ''gitops'' ''github'' ''k'' False (gitops_world_no_arm, [])) = None
   \<and> map (\<lambda>e. (describe (fst e), snd e))
        (drop 6 (snd (snd (AdjustGitopsRepo (traced exec_call) [''aws-github'', ''k3d-github''] ''amd64''
           ''k3d'' ''dev'' ''local'' ''g'' ''gitops'' ''github'' ''k'' False (gitops_world_no_arm, [])))))
       = [([''os.Remove'', ''g/registry/dev/components/kubefirst/console-arm.yaml''],
           Some (Error ''remove g/registry/dev/components/kubefirst/console-arm.yaml: no such file or directory'')),
          ([''cp.Copy'', ''g/terraform/github/repos.tf.tmpl'', ''g/terraform/github/repos.tf''], None),
          ([''pkg.ExecShellReturnStrings'', ''sed'', ''-i'',
            ''s/GITOPS_REPO_NAME/'' @ [dquote] @ ''gitops'' @ [dquote] @ ''/'',
            ''g/terraform/github/repos.tf''], None)]"
  by code_simp


section \<open>Properties of AdjustGitopsRepo on the reference world\<close>

lemma snd_run_script_Cons:
  "snd (run_script sys ((c, pol) # rest) w) =
     (if pol \<noteq> Ignore \<and> fst (sys c w) \<noteq> None then snd (sys c w)
      else snd (run_script sys rest (snd (sys c w))))"
  by (cases pol; cases "sys c w"; cases "fst (sys c w)")
     (auto simp: andThen_def wrapErr_def split: option.splits)

lemma refused_script: "refused (snd (run_script exec_call steps w)) = refused w"
proof (induction steps arbitrary: w)
  case Nil
  then show ?case by simp
next
  case (Cons s steps)
  obtain c pol where s: "s = (c, pol)" by (cases s)
  show ?case by (simp add: s snd_run_script_Cons Cons refused_call)
qed

lemma path_exists_key: "map_of F p = Some n \<Longrightarrow> path_exists F p"
  by (auto simp: path_exists_def list_ex_iff under_def dest!: map_of_SomeD intro!: bexI [of _ "(p, n)"])

lemma Remove_file:
  assumes "is_file (files w) p"
  shows "map_of (files (snd (Remove p w))) p = (if refused w p then map_of (files w) p else None)"
proof -
  from assms obtain c where c: "map_of (files w) p = Some (File c)"
    by (auto simp: is_file_def split: option.splits node.splits)
  then have "path_exists (files w) p" by (rule path_exists_key)
  then show ?thesis using c by (simp add: Remove_def map_of_delete_entry)
qed

lemma finish_chosen_console:
  assumes "is_file (files w) (dir @ ''/registry/'' @ cn @ x)"
    and "x = (if arch = ''arm64'' \<and> cp = CloudProvider
              then ''/components/kubefirst/console.yaml''
              else ''/components/kubefirst/console-arm.yaml'')"
  shows "map_of (files (snd (run_script exec_call (finish_script arch cp cn dir name ra) w)))
           (dir @ ''/registry/'' @ cn @ x) =
         (if refused w (dir @ ''/registry/'' @ cn @ x)
          then map_of (files w) (dir @ ''/registry/'' @ cn @ x) else None)"
proof -
  let ?X = "dir @ ''/registry/'' @ cn @ x"
  define w1 where "w1 = snd (RemoveAll (dir @ ''/cluster-types'') w)"
  define w2 where "w2 = snd (RemoveAll (dir @ ''/services'') w1)"
  define w3 where "w3 = snd (Remove ?X w2)"
  define post where "post = (if ra
        then [(os_Remove (dir @ ''/registry/'' @ cn @ ''/atlantis.yaml''), Ignore)]
        else [])
     @ [(cp_Copy (dir @ ''/terraform/github/repos.tf.tmpl'')
           (dir @ ''/terraform/github/repos.tf'') (Options None), Check),
        (ExecShellReturnStrings ''sed''
           [''-i'', ''s/GITOPS_REPO_NAME/'' @ [dquote] @ name @ [dquote] @ ''/'',
            dir @ ''/terraform/github/repos.tf''], Check)]"
  have x: "x = ''/components/kubefirst/console.yaml'' \<or> x = ''/components/kubefirst/console-arm.yaml''"
    using assms(2) by (simp split: if_splits)
  have run: "snd (run_script exec_call (finish_script arch cp cn dir name ra) w) =
               snd (run_script exec_call post w3)"
    unfolding finish_script_def post_def w3_def w2_def w1_def assms(2) by simp
  have r: "refused w2 = refused w"
    by (simp add: w2_def w1_def RemoveAll_def)
  have "map_of (files w1) ?X = map_of (files w) ?X"
    unfolding w1_def using x by (intro frame_RemoveAll) (auto simp: trim_keep under_def slash_def)
  moreover have "map_of (files w2) ?X = map_of (files w1) ?X"
    unfolding w2_def using x by (intro frame_RemoveAll) (auto simp: trim_keep under_def slash_def)
  ultimately have same: "map_of (files w2) ?X = map_of (files w) ?X" by simp
  then have "is_file (files w2) ?X" using assms(1) by (simp add: is_file_def)
  then have gone: "map_of (files w3) ?X = (if refused w ?X then map_of (files w) ?X else None)"
    unfolding w3_def using Remove_file [of w2 ?X] r same by simp
  have "map_of (files (snd (run_script exec_call post w3))) ?X = map_of (files w3) ?X"
    using x by (intro frame_script) (auto simp: post_def trim_keep under_def slash_def)
  then show ?thesis using gone run by simp
qed

lemma finish_other_console:
  assumes "x = (if arch = ''arm64'' \<and> cp = CloudProvider
              then ''/components/kubefirst/console-arm.yaml''
              else ''/components/kubefirst/console.yaml'')"
  shows "map_of (files (snd (run_script exec_call (finish_script arch cp cn dir name ra) w)))
           (dir @ ''/registry/'' @ cn @ x) = map_of (files w) (dir @ ''/registry/'' @ cn @ x)"
  using assms
  by (intro frame_script) (auto simp: finish_script_def trim_keep under_def slash_def split: if_splits)

lemma finish_atlantis:
  assumes "is_file (files w) (dir @ ''/registry/'' @ cn @ ''/atlantis.yaml'')"
  shows "map_of (files (snd (run_script exec_call (finish_script arch cp cn dir name ra) w)))
           (dir @ ''/registry/'' @ cn @ ''/atlantis.yaml'') =
         (if ra \<and> \<not> refused w (dir @ ''/registry/'' @ cn @ ''/atlantis.yaml'') then None
          else map_of (files w) (dir @ ''/registry/'' @ cn @ ''/atlantis.yaml''))"
proof (cases ra)
  case False
  then show ?thesis
    by (simp, intro frame_script) (auto simp: finish_script_def trim_keep under_def slash_def)
next
  case True
  let ?A = "dir @ ''/registry/'' @ cn @ ''/atlantis.yaml''"
  define pre where "pre =
     [(os_RemoveAll (dir @ ''/cluster-types''), Ignore),
      (os_RemoveAll (dir @ ''/services''), Ignore),
      (os_Remove (dir @ ''/registry/'' @ cn @
                    (if arch = ''arm64'' \<and> cp = CloudProvider
                     then ''/components/kubefirst/console.yaml''
                     else ''/components/kubefirst/console-arm.yaml'')), Ignore)]"
  define post where "post =
       [(cp_Copy (dir @ ''/terraform/github/repos.tf.tmpl'')
           (dir @ ''/terraform/github/repos.tf'') (Options None), Check),
        (ExecShellReturnStrings ''sed''
           [''-i'', ''s/GITOPS_REPO_NAME/'' @ [dquote] @ name @ [dquote] @ ''/'',
            dir @ ''/terraform/github/repos.tf''], Check)]"
  define w1 where "w1 = snd (run_script exec_call pre w)"
  define w2 where "w2 = snd (Remove ?A w1)"
  have run: "snd (run_script exec_call (finish_script arch cp cn dir name ra) w) =
               snd (run_script exec_call post w2)"
    unfolding finish_script_def post_def pre_def w2_def w1_def using True by simp
  have r: "refused w1 = refused w" unfolding w1_def by (rule refused_script)
  have same: "map_of (files w1) ?A = map_of (files w) ?A"
    unfolding w1_def by (intro frame_script) (auto simp: pre_def trim_keep under_def slash_def)
  then have "is_file (files w1) ?A" using assms by (simp add: is_file_def)
  then have gone: "map_of (files w2) ?A = (if refused w ?A then map_of (files w) ?A else None)"
    unfolding w2_def using Remove_file [of w1 ?A] r same by simp
  have "map_of (files (snd (run_script exec_call post w2))) ?A = map_of (files w2) ?A"
    by (intro frame_script) (auto simp: post_def trim_keep under_def slash_def)
  then show ?thesis using gone run True by simp
qed

lemma AdjustGitopsRepo_after_populate:
  "fst (AdjustGitopsRepo_populate exec_call ps cn ct dir gp w) = None \<Longrightarrow>
   snd (AdjustGitopsRepo exec_call ps arch cp cn ct dir name gp k1 ra w) =
     snd (run_script exec_call (finish_script arch cp cn dir name ra)
            (snd (AdjustGitopsRepo_populate exec_call ps cn ct dir gp w)))"
  by (simp add: AdjustGitopsRepo_def snd_andThen finish_is_script)

lemma refused_after_populate:
  "refused (snd (AdjustGitopsRepo_populate exec_call ps cn ct dir gp w)) = refused w"
  by (simp add: populate_is_script refused_script)

lemma sed_other_call: "sed_other (snd (exec_call c w)) = sed_other w"
  by (cases c)
    (auto simp: RemoveAll_def Remove_def Mkdir_def Copy_def Let_def ExecShell_def run_sed_def
      PlainInit_def Commit_def SetRefToMainBranch_def RemoveRef_def NewRemote_def set_repository_def
      split: option.splits node.splits list.splits sum.splits)

lemma sed_other_script: "sed_other (snd (run_script exec_call steps w)) = sed_other w"
proof (induction steps arbitrary: w)
  case Nil
  then show ?case by simp
next
  case (Cons s steps)
  obtain c pol where s: "s = (c, pol)" by (cases s)
  show ?case by (simp add: s snd_run_script_Cons Cons sed_other_call)
qed

lemma populate_locked:
  "AdjustGitopsRepo_populate exec_call [''aws-github'', ''k3d-github''] ''dev'' ''local'' ''g'' ''github''
     gitops_world_locked = (None, populated_locked)"
proof (rule prod_eqI)
  show "fst (AdjustGitopsRepo_populate exec_call [''aws-github'', ''k3d-github''] ''dev'' ''local'' ''g''
          ''github'' gitops_world_locked) = fst (None, populated_locked)"
    by code_simp
  have "snd (AdjustGitopsRepo_populate exec_call [''aws-github'', ''k3d-github''] ''dev'' ''local'' ''g''
          ''github'' gitops_world_locked) = populated_locked"
  proof (rule world.equality)
    show "files (snd (AdjustGitopsRepo_populate exec_call [''aws-github'', ''k3d-github''] ''dev'' ''local''
            ''g'' ''github'' gitops_world_locked)) = files populated_locked"
      by code_simp
    show "refused (snd (AdjustGitopsRepo_populate exec_call [''aws-github'', ''k3d-github''] ''dev'' ''local''
            ''g'' ''github'' gitops_world_locked)) = refused populated_locked"
      by (simp add: refused_after_populate gitops_world_locked_def populated_locked_def)
    show "repositories (snd (AdjustGitopsRepo_populate exec_call [''aws-github'', ''k3d-github''] ''dev''
            ''local'' ''g'' ''github'' gitops_world_locked)) = repositories populated_locked"
      by code_simp
    show "sed_binary (snd (AdjustGitopsRepo_populate exec_call [''aws-github'', ''k3d-github''] ''dev''
            ''local'' ''g'' ''github'' gitops_world_locked)) = sed_binary populated_locked"
      by code_simp
    show "sed_other (snd (AdjustGitopsRepo_populate exec_call [''aws-github'', ''k3d-github''] ''dev''
            ''local'' ''g'' ''github'' gitops_world_locked)) = sed_other populated_locked"
      by (simp add: populate_is_script sed_other_script gitops_world_locked_def gitops_world_def
          populated_locked_def)
  qed simp
  then show "snd (AdjustGitopsRepo_populate exec_call [''aws-github'', ''k3d-github''] ''dev'' ''local'' ''g''
          ''github'' gitops_world_locked) = snd (None, populated_locked)"
    by simp
qed

lemma AdjustGitopsRepo_locked:
  "AdjustGitopsRepo exec_call [''aws-github'', ''k3d-github''] arch cp ''dev'' ''local'' ''g'' name ''github''
     k1 ra gitops_world_locked =
   run_script exec_call (finish_script arch cp ''dev'' ''g'' name ra) populated_locked"
  by (simp add: AdjustGitopsRepo_def populate_locked finish_is_script)

text \<open>
  Claim C4, as amended. Take arguments in normal form, and a run in which the copy of the
  cluster type has succeeded and has left both console manifests,
  \<open>components/kubefirst/console.yaml\<close> (AMD) and \<open>components/kubefirst/console-arm.yaml\<close>
  (ARM), as files under the registry path. The manifest handed to \<open>os.Remove\<close> is the AMD one
  if and only if the host architecture is \<open>arm64\<close> and the \<open>cloudProvider\<close> argument equals the
  constant \<open>k3d\<close>, and the ARM one otherwise; nothing else decides the choice. After the run,
  whatever it returns, the other manifest is still a file, and the chosen one is gone exactly
  when the operating system did not refuse its removal: exactly one manifest is left when
  \<open>os.Remove\<close> succeeds, and both are left when it fails, its error being dropped.
\<close>

theorem console_manifest_chosen_by_architecture:
  assumes "normal_arguments SupportedPlatforms clusterName clusterType gitopsRepoDir gitProvider"
    and "fst (AdjustGitopsRepo_populate exec_call SupportedPlatforms clusterName clusterType
                  gitopsRepoDir gitProvider w) = None"
    and "is_file (files (snd (AdjustGitopsRepo_populate exec_call SupportedPlatforms clusterName
                  clusterType gitopsRepoDir gitProvider w)))
           (gitopsRepoDir @ ''/registry/'' @ clusterName @ ''/components/kubefirst/console.yaml'')"
    and "is_file (files (snd (AdjustGitopsRepo_populate exec_call SupportedPlatforms clusterName
                  clusterType gitopsRepoDir gitProvider w)))
           (gitopsRepoDir @ ''/registry/'' @ clusterName @ ''/components/kubefirst/console-arm.yaml'')"
  shows "(let w' = snd (AdjustGitopsRepo exec_call SupportedPlatforms LocalhostARCH cloudProvider
                     clusterName clusterType gitopsRepoDir gitopsRepoName gitProvider k1Dir
                     removeAtlantis w);
              amd_path = gitopsRepoDir @ ''/registry/'' @ clusterName @ ''/components/kubefirst/console.yaml'';
              arm_path = gitopsRepoDir @ ''/registry/'' @ clusterName @ ''/components/kubefirst/console-arm.yaml''
          in if LocalhostARCH = ''arm64'' \<and> cloudProvider = ''k3d''
             then is_file (files w') arm_path \<and> (is_file (files w') amd_path \<longleftrightarrow> refused w amd_path)
             else is_file (files w') amd_path \<and> (is_file (files w') arm_path \<longleftrightarrow> refused w arm_path))"
proof -
  let ?w1 = "snd (AdjustGitopsRepo_populate exec_call SupportedPlatforms clusterName clusterType
                  gitopsRepoDir gitProvider w)"
  let ?fin = "snd (run_script exec_call (finish_script LocalhostARCH cloudProvider clusterName
                  gitopsRepoDir gitopsRepoName removeAtlantis) ?w1)"
  let ?amd = "gitopsRepoDir @ ''/registry/'' @ clusterName @ ''/components/kubefirst/console.yaml''"
  let ?arm = "gitopsRepoDir @ ''/registry/'' @ clusterName @ ''/components/kubefirst/console-arm.yaml''"
  have fin: "snd (AdjustGitopsRepo exec_call SupportedPlatforms LocalhostARCH cloudProvider
                     clusterName clusterType gitopsRepoDir gitopsRepoName gitProvider k1Dir
                     removeAtlantis w) = ?fin"
    by (rule AdjustGitopsRepo_after_populate [OF assms(2)])
  have r: "refused ?w1 = refused w" by (rule refused_after_populate)
  show ?thesis
  proof (cases "LocalhostARCH = ''arm64'' \<and> cloudProvider = CloudProvider")
    case True
    have "map_of (files ?fin) ?amd = (if refused w ?amd then map_of (files ?w1) ?amd else None)"
      using finish_chosen_console [OF assms(3), of LocalhostARCH cloudProvider gitopsRepoName removeAtlantis]
        True r by simp
    moreover have "map_of (files ?fin) ?arm = map_of (files ?w1) ?arm"
      using finish_other_console [of "''/components/kubefirst/console-arm.yaml''" LocalhostARCH
          cloudProvider clusterName gitopsRepoDir gitopsRepoName removeAtlantis ?w1] True
      by simp
    ultimately have "is_file (files ?fin) ?amd \<longleftrightarrow> refused w ?amd" "is_file (files ?fin) ?arm"
      using assms(3,4) by (simp_all add: is_file_def)
    then show ?thesis using True unfolding fin by (simp add: CloudProvider_def Let_def)
  next
    case False
    have "map_of (files ?fin) ?arm = (if refused w ?arm then map_of (files ?w1) ?arm else None)"
      using finish_chosen_console [OF assms(4), of LocalhostARCH cloudProvider gitopsRepoName removeAtlantis]
        False r by simp
    moreover have "map_of (files ?fin) ?amd = map_of (files ?w1) ?amd"
      using finish_other_console [of "''/components/kubefirst/console.yaml''" LocalhostARCH
          cloudProvider clusterName gitopsRepoDir gitopsRepoName removeAtlantis ?w1] False
      by simp
    ultimately have "is_file (files ?fin) ?amd" "is_file (files ?fin) ?arm \<longleftrightarrow> refused w ?arm"
      using assms(3,4) by (simp_all add: is_file_def)
    then show ?thesis using False unfolding fin by (auto simp: CloudProvider_def Let_def)
  qed
qed

theorem console_manifest_chosen_by_architecture_witness:
  "normal_arguments [''aws-github'', ''k3d-github''] ''dev'' ''local'' ''g'' ''github''
   \<and> fst (AdjustGitopsRepo_populate exec_call [''aws-github'', ''k3d-github''] ''dev'' ''local'' ''g'' ''github''
          gitops_world) = None
   \<and> is_file (files (snd (AdjustGitopsRepo_populate exec_call [''aws-github'', ''k3d-github''] ''dev''
          ''local'' ''g'' ''github'' gitops_world))) ''g/registry/dev/components/kubefirst/console.yaml''
   \<and> is_file (files (snd (AdjustGitopsRepo_populate exec_call [''aws-github'', ''k3d-github''] ''dev''
          ''local'' ''g'' ''github'' gitops_world))) ''g/registry/dev/components/kubefirst/console-arm.yaml''
   \<and> \<not> is_file (files (snd (AdjustGitopsRepo exec_call [''aws-github'', ''k3d-github''] ''arm64'' ''k3d''
          ''dev'' ''local'' ''g'' ''gitops'' ''github'' ''k'' False gitops_world)))
          ''g/registry/dev/components/kubefirst/console.yaml''
   \<and> is_file (files (snd (AdjustGitopsRepo exec_call [''aws-github'', ''k3d-github''] ''arm64'' ''k3d''
          ''dev'' ''local'' ''g'' ''gitops'' ''github'' ''k'' False gitops_world)))
          ''g/registry/dev/components/kubefirst/console-arm.yaml''"
proof -
  have h0: "normal_arguments [''aws-github'', ''k3d-github''] ''dev'' ''local'' ''g'' ''github''"
    by code_simp
  have h1: "fst (AdjustGitopsRepo_populate exec_call [''aws-github'', ''k3d-github''] ''dev'' ''local'' ''g''
                   ''github'' gitops_world) = None"
    by code_simp
  have h2: "is_file (files (snd (AdjustGitopsRepo_populate exec_call [''aws-github'', ''k3d-github''] ''dev''
          ''local'' ''g'' ''github'' gitops_world))) (''g'' @ ''/registry/'' @ ''dev'' @ ''/components/kubefirst/console.yaml'')"
    by code_simp
  have h3: "is_file (files (snd (AdjustGitopsRepo_populate exec_call [''aws-github'', ''k3d-github''] ''dev''
          ''local'' ''g'' ''github'' gitops_world))) (''g'' @ ''/registry/'' @ ''dev'' @ ''/components/kubefirst/console-arm.yaml'')"
    by code_simp
  have h4: "\<not> refused gitops_world q" for q by (simp add: gitops_world_def)
  show ?thesis
    using h0 h1 h2 h3 h4
      console_manifest_chosen_by_architecture [OF h0 h1 h2 h3, where LocalhostARCH = "''arm64''"
        and cloudProvider = "''k3d''" and gitopsRepoName = "''gitops''" and k1Dir = "''k''"
        and removeAtlantis = False]
    by (simp add: Let_def)
qed

text \<open>
  Claim C4 as it is worded fails. On an \<open>amd64\<close> host the ARM manifest is handed to
  \<open>os.Remove\<close>; the operating system refuses the removal; the error is dropped, the run
  returns \<open>nil\<close>, and both manifests exist afterwards.
\<close>

theorem console_manifest_refused_counterexample:
  "fst (AdjustGitopsRepo exec_call [''aws-github'', ''k3d-github''] ''amd64'' ''k3d'' ''dev'' ''local'' ''g''
          ''gitops'' ''github'' ''k'' False gitops_world_locked) = None
   \<and> is_file (files (snd (AdjustGitopsRepo_populate exec_call [''aws-github'', ''k3d-github''] ''dev''
          ''local'' ''g'' ''github'' gitops_world_locked)))
          ''g/registry/dev/components/kubefirst/console.yaml''
   \<and> is_file (files (snd (AdjustGitopsRepo_populate exec_call [''aws-github'', ''k3d-github''] ''dev''
          ''local'' ''g'' ''github'' gitops_world_locked)))
          ''g/registry/dev/components/kubefirst/console-arm.yaml''
   \<and> is_file (files (snd (AdjustGitopsRepo exec_call [''aws-github'', ''k3d-github''] ''amd64'' ''k3d''
          ''dev'' ''local'' ''g'' ''gitops'' ''github'' ''k'' False gitops_world_locked)))
          ''g/registry/dev/components/kubefirst/console.yaml''
   \<and> is_file (files (snd (AdjustGitopsRepo exec_call [''aws-github'', ''k3d-github''] ''amd64'' ''k3d''
          ''dev'' ''local'' ''g'' ''gitops'' ''github'' ''k'' False gitops_world_locked)))
          ''g/registry/dev/components/kubefirst/console-arm.yaml''"
  unfolding AdjustGitopsRepo_locked populate_locked snd_conv
  by code_simp

text \<open>
  Claim C7, as amended. Take arguments in normal form, and a run in which the copy of the
  cluster type has succeeded and has left \<open>atlantis.yaml\<close> as a file under the registry path.
  With \<open>removeAtlantis\<close> false the manifest is still there after the run, with the content it
  had: no other step touches it. With \<open>removeAtlantis\<close> true the manifest is absent after the
  run exactly when the operating system did not refuse its removal; when \<open>os.Remove\<close> fails,
  its error is dropped and the manifest stays as it was.
\<close>

theorem atlantis_manifest_removed_on_request:
  assumes "normal_arguments SupportedPlatforms clusterName clusterType gitopsRepoDir gitProvider"
    and "fst (AdjustGitopsRepo_populate exec_call SupportedPlatforms clusterName clusterType
                  gitopsRepoDir gitProvider w) = None"
    and "is_file (files (snd (AdjustGitopsRepo_populate exec_call SupportedPlatforms clusterName
                  clusterType gitopsRepoDir gitProvider w)))
           (gitopsRepoDir @ ''/registry/'' @ clusterName @ ''/atlantis.yaml'')"
  shows "map_of (files (snd (AdjustGitopsRepo exec_call SupportedPlatforms LocalhostARCH cloudProvider
                     clusterName clusterType gitopsRepoDir gitopsRepoName gitProvider k1Dir
                     removeAtlantis w)))
           (gitopsRepoDir @ ''/registry/'' @ clusterName @ ''/atlantis.yaml'') =
         (if removeAtlantis \<and> \<not> refused w (gitopsRepoDir @ ''/registry/'' @ clusterName @ ''/atlantis.yaml'')
          then None
          else map_of (files (snd (AdjustGitopsRepo_populate exec_call SupportedPlatforms clusterName
                  clusterType gitopsRepoDir gitProvider w)))
                 (gitopsRepoDir @ ''/registry/'' @ clusterName @ ''/atlantis.yaml''))"
  unfolding AdjustGitopsRepo_after_populate [OF assms(2)]
  using finish_atlantis [OF assms(3), of LocalhostARCH cloudProvider gitopsRepoName removeAtlantis]
  by (simp add: refused_after_populate)

theorem atlantis_manifest_removed_on_request_witness:
  "normal_arguments [''aws-github'', ''k3d-github''] ''dev'' ''local'' ''g'' ''github''
   \<and> fst (AdjustGitopsRepo_populate exec_call [''aws-github'', ''k3d-github''] ''dev'' ''local'' ''g'' ''github''
          gitops_world) = None
   \<and> is_file (files (snd (AdjustGitopsRepo_populate exec_call [''aws-github'', ''k3d-github''] ''dev''
          ''local'' ''g'' ''github'' gitops_world))) ''g/registry/dev/atlantis.yaml''
   \<and> map_of (files (snd (AdjustGitopsRepo exec_call [''aws-github'', ''k3d-github''] ''amd64'' ''k3d''
          ''dev'' ''local'' ''g'' ''gitops'' ''github'' ''k'' True gitops_world)))
          ''g/registry/dev/atlantis.yaml'' = None
   \<and> map_of (files (snd (AdjustGitopsRepo exec_call [''aws-github'', ''k3d-github''] ''amd64'' ''k3d''
          ''dev'' ''local'' ''g'' ''gitops'' ''github'' ''k'' False gitops_world)))
          ''g/registry/dev/atlantis.yaml'' = Some (File ''atlantis'')"
proof -
  have h0: "normal_arguments [''aws-github'', ''k3d-github''] ''dev'' ''local'' ''g'' ''github''"
    by code_simp
  have h1: "fst (AdjustGitopsRepo_populate exec_call [''aws-github'', ''k3d-github''] ''dev'' ''local'' ''g''
                   ''github'' gitops_world) = None"
    by code_simp
  have h2: "is_file (files (snd (AdjustGitopsRepo_populate exec_call [''aws-github'', ''k3d-github''] ''dev''
          ''local'' ''g'' ''github'' gitops_world))) (''g'' @ ''/registry/'' @ ''dev'' @ ''/atlantis.yaml'')"
    by code_simp
  have h3: "map_of (files (snd (AdjustGitopsRepo_populate exec_call [''aws-github'', ''k3d-github''] ''dev''
          ''local'' ''g'' ''github'' gitops_world))) ''g/registry/dev/atlantis.yaml'' = Some (File ''atlantis'')"
    by code_simp
  have h4: "\<not> refused gitops_world q" for q by (simp add: gitops_world_def)
  show ?thesis
    using h0 h1 h2 h3 h4
      atlantis_manifest_removed_on_request [OF h0 h1 h2, where LocalhostARCH = "''amd64''"
        and cloudProvider = "''k3d''" and gitopsRepoName = "''gitops''" and k1Dir = "''k''"
        and removeAtlantis = True]
      atlantis_manifest_removed_on_request [OF h0 h1 h2, where LocalhostARCH = "''amd64''"
        and cloudProvider = "''k3d''" and gitopsRepoName = "''gitops''" and k1Dir = "''k''"
        and removeAtlantis = False]
    by simp
qed

text \<open>
  Claim C7 as it is worded fails. With \<open>removeAtlantis\<close> true the operating system refuses
  the removal of \<open>atlantis.yaml\<close>; the error is dropped, the run returns \<open>nil\<close>, and the
  manifest is still there.
\<close>

theorem atlantis_manifest_refused_counterexample:
  "fst (AdjustGitopsRepo exec_call [''aws-github'', ''k3d-github''] ''arm64'' ''k3d'' ''dev'' ''local'' ''g''
          ''gitops'' ''github'' ''k'' True gitops_world_locked) = None
   \<and> is_file (files (snd (AdjustGitopsRepo_populate exec_call [''aws-github'', ''k3d-github''] ''dev''
          ''local'' ''g'' ''github'' gitops_world_locked))) ''g/registry/dev/atlantis.yaml''
   \<and> map_of (files (snd (AdjustGitopsRepo exec_call [''aws-github'', ''k3d-github''] ''arm64'' ''k3d''
          ''dev'' ''local'' ''g'' ''gitops'' ''github'' ''k'' True gitops_world_locked)))
          ''g/registry/dev/atlantis.yaml'' = Some (File ''atlantis'')"
  unfolding AdjustGitopsRepo_locked populate_locked snd_conv
  by code_simp


section \<open>Properties of AdjustMetaphorRepo\<close>

lemma trace_calls_prefix: "prefix (map fst (trace_of sys steps w)) (map fst steps)"
proof (induction steps arbitrary: w)
  case Nil
  then show ?case by simp
next
  case (Cons s steps)
  obtain c pol where s: "s = (c, pol)" by (cases s)
  show ?case using Cons [of "snd (sys c w)"] by (simp add: s)
qed

lemma keys_write_entries: "fst ` set (write_entries new F) = fst ` set new \<union> fst ` set F"
  by (auto simp: write_entries_def)

lemma path_exists_iff: "path_exists F d \<longleftrightarrow> (\<exists>q \<in> fst ` set F. under d q)"
  by (auto simp: path_exists_def list_ex_iff)

lemma keys_copy_entries_below:
  "q \<in> fst ` set (copy_entries opt s d F) \<Longrightarrow> under d q"
  using copy_entries_below [of _ opt s d F] by (auto simp: under_def)

lemma Copy_files_cases:
  "snd (Copy src dest opt w) = w
   \<or> (\<exists>c. files (snd (Copy src dest opt w)) = write_entries [(trim dest, File c)] (files w))
   \<or> files (snd (Copy src dest opt w)) =
       write_entries ((trim dest, Dir) # copy_entries opt (trim src) (trim dest) (files w)) (files w)"
proof (cases "path_exists (files w) (trim src)")
  case False
  then show ?thesis by (simp add: Copy_def Let_def)
next
  case True
  show ?thesis
  proof (cases "map_of (files w) (trim src)")
    case None
    then show ?thesis using True
      by (cases "skip_errors opt (trim src) (files w)") (simp_all add: Copy_def Let_def)
  next
    case (Some n)
    show ?thesis
    proof (cases n)
      case (File c)
      then show ?thesis using True Some by (auto simp: Copy_def Let_def)
    next
      case Dir
      then show ?thesis using True Some
        by (cases "skip_errors opt (trim src) (files w)") (simp_all add: Copy_def Let_def)
    qed
  qed
qed

lemma keys_Copy:
  "fst ` set (files (snd (Copy src dest opt w))) \<subseteq> fst ` set (files w) \<union> {q. under (trim dest) q}"
  "fst ` set (files w) \<subseteq> fst ` set (files (snd (Copy src dest opt w)))"
proof -
  let ?F = "files w"
  consider (failed) "snd (Copy src dest opt w) = w"
    | (isfile) c where "files (snd (Copy src dest opt w)) = write_entries [(trim dest, File c)] ?F"
    | (isdir) "files (snd (Copy src dest opt w)) =
               write_entries ((trim dest, Dir) # copy_entries opt (trim src) (trim dest) ?F) ?F"
    using Copy_files_cases [of src dest opt w] by blast
  note cases = this
  show "fst ` set (files (snd (Copy src dest opt w))) \<subseteq> fst ` set ?F \<union> {q. under (trim dest) q}"
  proof (cases rule: cases)
    case failed
    then show ?thesis by auto
  next
    case (isfile c)
    then show ?thesis by (auto simp: keys_write_entries under_def)
  next
    case isdir
    show ?thesis
      unfolding isdir keys_write_entries
      using keys_copy_entries_below [of _ opt "trim src" "trim dest" ?F]
      by (auto simp: under_def)
  qed
  show "fst ` set ?F \<subseteq> fst ` set (files (snd (Copy src dest opt w)))"
  proof (cases rule: cases)
    case failed
    then show ?thesis by auto
  next
    case (isfile c)
    then show ?thesis by (auto simp: keys_write_entries)
  next
    case isdir
    show ?thesis unfolding isdir keys_write_entries by auto
  qed
qed

lemma path_exists_Copy_elsewhere:
  assumes "\<And>q. under (trim dest) q \<Longrightarrow> \<not> under d q"
  shows "path_exists (files (snd (Copy src dest opt w))) d = path_exists (files w) d"
proof
  assume "path_exists (files (snd (Copy src dest opt w))) d"
  then obtain q where q: "q \<in> fst ` set (files (snd (Copy src dest opt w)))" "under d q"
    unfolding path_exists_iff by blast
  from q(1) keys_Copy(1) [where src = src and dest = dest and opt = opt and w = w]
  have "q \<in> fst ` set (files w) \<or> under (trim dest) q" by blast
  with q(2) assms have "q \<in> fst ` set (files w)" by blast
  with q(2) show "path_exists (files w) d" unfolding path_exists_iff by blast
next
  assume "path_exists (files w) d"
  then obtain q where q: "q \<in> fst ` set (files w)" "under d q"
    unfolding path_exists_iff by blast
  from q(1) keys_Copy(2) [where src = src and dest = dest and opt = opt and w = w]
  have "q \<in> fst ` set (files (snd (Copy src dest opt w)))" by blast
  with q(2) show "path_exists (files (snd (Copy src dest opt w))) d" unfolding path_exists_iff by blast
qed

lemma under_prefix: "under d q \<Longrightarrow> prefix a d \<Longrightarrow> prefix a q"
  by (auto simp: under_def dest: append_prefixD intro: prefix_order.trans)

lemma gitlab_not_github:
  assumes "under (m @ ''/.gitlab-ci.yml'') q"
  shows "\<not> under (m @ ''/.github'') q"
proof
  assume "under (m @ ''/.github'') q"
  then have a: "prefix (m @ ''/.gith'') q" by (rule under_prefix) simp
  from assms have b: "prefix (m @ ''/.gitl'') q" by (rule under_prefix) simp
  have "prefix (m @ ''/.gith'') (m @ ''/.gitl'')"
    by (rule prefix_length_prefix [OF a b]) simp
  then show False by simp
qed

lemma gitlab_ci_creates_no_github:
  "path_exists (files (snd (copy_ci_content exec_call ''gitlab'' k1 m opt w))) (m @ ''/.github'')
     = path_exists (files w) (m @ ''/.github'')"
proof -
  have t: "trim (m @ ''/.gitlab-ci.yml'') = m @ ''/.gitlab-ci.yml''"
    by (rule trim_keep) (simp_all add: slash_def)
  show ?thesis
    unfolding copy_ci_content_def
    by (simp, rule path_exists_Copy_elsewhere) (simp add: t gitlab_not_github)
qed

lemma run_script_always_ok: "run_script always_ok steps w = (None, w)"
proof (induction steps arbitrary: w)
  case Nil
  then show ?case by simp
next
  case (Cons s steps)
  obtain c pol where s: "s = (c, pol)" by (cases s)
  have a: "always_ok c w' = (None, w')" for w' by (simp add: always_ok_def)
  have b: "wrapErr pre (None, w') = (None, w')" for pre and w' :: unit by (simp add: wrapErr_def)
  show ?case
    by (cases pol) (simp_all only: s run_script.simps a b snd_conv andThen_None Cons)
qed



end
